theory Spec2Isabelle
  imports Main "HOL-Library.Char_ord" "HOL-Library.List_Lexorder" "HOL-Library.Product_Lexorder"
begin

section \<open>Data model\<close>

text \<open>
  The workspace-aware CRD lister of kcp (package \<open>server\<close>) and the API reconciler of the
  syncer virtual workspace (package \<open>apireconciler\<close>).

  A logical cluster name (\<open>logicalcluster.Name\<close>) wraps a string. A cluster-aware key
  (\<open>clusters.ToClusterAwareKey(cluster, name)\<close>) is kept as the pair it encodes.
\<close>

type_synonym clusterName = string
type_synonym key = "string \<times> string"

definition ToClusterAwareKey :: "clusterName \<Rightarrow> string \<Rightarrow> key" where
  "ToClusterAwareKey cluster name = (cluster, name)"

definition SystemCRDLogicalCluster :: clusterName where
  "SystemCRDLogicalCluster = ''system:system-crds''"

text \<open>
  Modelled from the spec: the constants that the code takes from other packages of the
  repository or from the logical-cluster library, whose declarations are not among the
  sources here. The spec gives the root cluster \<open>root\<close>, the wildcard \<open>*\<close>, the identity
  annotation key \<open>apis.kcp.dev/identity\<close> and the condition \<open>InitialBindingCompleted\<close>; the
  shadow workspace is only said to be a reserved constant, and the name below stands for
  it. No general theorem depends on these values.
\<close>

definition RootCluster :: clusterName where
  "RootCluster = ''root''"

definition Wildcard :: clusterName where
  "Wildcard = ''*''"

definition ShadowWorkspaceName :: clusterName where
  "ShadowWorkspaceName = ''system:bound-crds''"

definition AnnotationAPIIdentityKey :: string where
  "AnnotationAPIIdentityKey = ''apis.kcp.dev/identity''"

definition annotationKeyPartialMetadata :: string where
  "annotationKeyPartialMetadata = ''crd.kcp.dev/partial-metadata''"

text \<open>
  Errors are values. \<open>NotFound\<close>, \<open>ServiceUnavailable\<close> and \<open>InternalError\<close> are the
  \<open>apierrors\<close> status errors the code builds; \<open>MissingCluster\<close> is the error of
  \<open>request.ClusterNameFrom\<close>; \<open>StoreError\<close> is any other error of a lister or an indexer;
  \<open>Wrapped\<close> is \<open>fmt.Errorf("...: %w", err)\<close>.
\<close>

datatype error =
    NotFound
  | ServiceUnavailable
  | InternalError
  | MissingCluster
  | StoreError string
  | Wrapped string error

fun IsNotFound :: "error \<Rightarrow> bool" where
  "IsNotFound NotFound = True"
| "IsNotFound _ = False"

text \<open>
  \<open>metav1.Time\<close>: an instant, \<open>0\<close> being the zero value of \<open>time.Time\<close>. A \<open>*metav1.Time\<close> is
  an option; \<open>IsZero\<close> accepts the nil pointer.
\<close>

type_synonym time = nat

fun IsZero :: "time option \<Rightarrow> bool" where
  "IsZero None = True"
| "IsZero (Some t) = (t = 0)"

record condition =
  ctype :: string
  cstatus :: string
  lastTransitionTime :: time
  reason :: string
  message :: string

definition zeroCondition :: condition where
  "zeroCondition = \<lparr>ctype = '''', cstatus = '''', lastTransitionTime = 0, reason = '''', message = ''''\<rparr>"

text \<open>\<open>JSONSchemaProps\<close>: only the type and the property names are kept.\<close>

record jsonSchemaProps =
  schemaType :: string
  properties :: "string list"

record crdVersion =
  versionName :: string
  versionSchema :: "jsonSchemaProps option"

record crdSpec =
  specGroup :: string
  namesPlural :: string
  specVersions :: "crdVersion list"

text \<open>
  A \<open>CustomResourceDefinition\<close>. The type parameter is the annotations field: a map
  \<open>string \<rightharpoonup> string\<close> where objects are values, a reference to a map object where the
  heap is explicit (section Pointers).
\<close>

record 'm crd =
  crdName :: string
  crdClusterName :: clusterName
  crdUID :: string
  crdLabels :: "string \<rightharpoonup> string"
  crdAnnotations :: 'm
  crdDeletionTimestamp :: "time option"
  crdSpec :: crdSpec
  crdConditions :: "condition list"

type_synonym vcrd = "(string \<rightharpoonup> string) crd"

record boundResource =
  brGroup :: string
  brResource :: string
  brSchemaUID :: string
  brIdentityHash :: string

record apiBinding =
  bindingName :: string
  bindingConditions :: "(string \<times> string) list"
  bindingDeletionTimestamp :: "time option"
  boundResources :: "boundResource list"

definition InitialBindingCompleted :: string where
  "InitialBindingCompleted = ''InitialBindingCompleted''"

text \<open>
  Modelled from the spec: \<open>conditions.IsTrue(obj, t)\<close> of the repository's conditions
  utilities, not among the sources here. A binding is completed when it has the
  condition \<open>InitialBindingCompleted\<close>: the condition of type \<open>t\<close> exists and its status is
  \<open>True\<close>.
\<close>

definition IsTrue :: "apiBinding \<Rightarrow> string \<Rightarrow> bool" where
  "IsTrue b t = (case map_of (bindingConditions b) t of None \<Rightarrow> False | Some s \<Rightarrow> s = ''True'')"

record clusterWorkspace =
  workspaceTypeName :: string

text \<open>
  Functions of libraries outside the repository, taken as parameters:
  \<open>logicalcluster.Name.HasPrefix\<close> and \<open>Split\<close>, \<open>goautoneg.ParseAccept\<close> (each clause
  reduced to its parameters), and the clock read by \<open>apiextensionshelpers.SetCRDCondition\<close>.
\<close>

record extlib =
  HasPrefix :: "clusterName \<Rightarrow> clusterName \<Rightarrow> bool"
  Split :: "clusterName \<Rightarrow> clusterName \<times> string"
  ParseAccept :: "string \<Rightarrow> (string \<rightharpoonup> string) list"
  Now :: time

section \<open>The system CRD provider\<close>

record 'c systemCRDProvider =
  commonCRDs :: "key set"
  rootCRDs :: "key set"
  orgCRDs :: "key set"
  universalCRDs :: "key set"
  getClusterWorkspace :: "key \<Rightarrow> error + clusterWorkspace"
  getCRD :: "key \<Rightarrow> error + 'c"

text \<open>The two feature gates (\<open>LocationAPI\<close>, \<open>PlacementAPI\<close>) are read once, at construction.\<close>

definition newSystemCRDProvider ::
  "bool \<Rightarrow> bool \<Rightarrow> (key \<Rightarrow> error + clusterWorkspace) \<Rightarrow> (key \<Rightarrow> error + 'c) \<Rightarrow> 'c systemCRDProvider" where
  "newSystemCRDProvider locationAPI placementAPI getWs getC =
    (let p = \<lparr>commonCRDs = {
                  ToClusterAwareKey SystemCRDLogicalCluster ''clusterworkspaces.tenancy.kcp.dev'',
                  ToClusterAwareKey SystemCRDLogicalCluster ''clusterworkspacetypes.tenancy.kcp.dev'',
                  ToClusterAwareKey SystemCRDLogicalCluster ''clusterworkspaceshards.tenancy.kcp.dev'',
                  ToClusterAwareKey SystemCRDLogicalCluster ''workspaces.tenancy.kcp.dev''},
              rootCRDs = {},
              orgCRDs = {},
              universalCRDs = {
                  ToClusterAwareKey SystemCRDLogicalCluster ''apiresourceimports.apiresource.kcp.dev'',
                  ToClusterAwareKey SystemCRDLogicalCluster ''negotiatedapiresources.apiresource.kcp.dev'',
                  ToClusterAwareKey SystemCRDLogicalCluster ''workloadclusters.workload.kcp.dev'',
                  ToClusterAwareKey SystemCRDLogicalCluster ''apiexports.apis.kcp.dev'',
                  ToClusterAwareKey SystemCRDLogicalCluster ''apibindings.apis.kcp.dev'',
                  ToClusterAwareKey SystemCRDLogicalCluster ''apiresourceschemas.apis.kcp.dev''},
              getClusterWorkspace = getWs,
              getCRD = getC\<rparr>;
         p = (if locationAPI then
                p\<lparr>rootCRDs := insert (ToClusterAwareKey SystemCRDLogicalCluster ''locations.scheduling.kcp.dev'') (rootCRDs p),
                  orgCRDs := insert (ToClusterAwareKey SystemCRDLogicalCluster ''locations.scheduling.kcp.dev'') (orgCRDs p),
                  universalCRDs := insert (ToClusterAwareKey SystemCRDLogicalCluster ''locations.scheduling.kcp.dev'') (universalCRDs p)\<rparr>
              else p);
         p = (if placementAPI then
                p\<lparr>rootCRDs := insert (ToClusterAwareKey SystemCRDLogicalCluster ''placements.scheduling.kcp.dev'') (rootCRDs p),
                  orgCRDs := insert (ToClusterAwareKey SystemCRDLogicalCluster ''placements.scheduling.kcp.dev'') (orgCRDs p),
                  universalCRDs := insert (ToClusterAwareKey SystemCRDLogicalCluster ''placements.scheduling.kcp.dev'') (universalCRDs p)\<rparr>
              else p)
     in p)"

text \<open>
  \<open>systemCRDProvider.Keys\<close>. The first true case of the outer switch is taken; a workspace
  type matching no case of the inner switch falls out of both switches to the final
  \<open>return sets.NewString()\<close>. The \<open>klog.ErrorS\<close> call does not change the result.
\<close>

definition Keys :: "extlib \<Rightarrow> 'c systemCRDProvider \<Rightarrow> clusterName \<Rightarrow> key set" where
  "Keys L p clusterName =
    (if clusterName = RootCluster then rootCRDs p \<union> commonCRDs p
     else if HasPrefix L clusterName RootCluster then
       (case Split L clusterName of (parent, ws) \<Rightarrow>
         (case getClusterWorkspace p (ToClusterAwareKey parent ws) of
            Inl err \<Rightarrow> {}
          | Inr cw \<Rightarrow>
              (if workspaceTypeName cw = ''Universal'' then universalCRDs p \<union> commonCRDs p
               else if workspaceTypeName cw = ''Organization'' \<or> workspaceTypeName cw = ''Team''
                 then orgCRDs p \<union> commonCRDs p
               else {})))
     else {})"

text \<open>
  \<open>systemCRDProvider.List\<close>: \<open>sets.String.List()\<close> is the sorted list of the keys; the first
  failing \<open>getCRD\<close> ends the loop with the wrapped error.
\<close>

fun listSystemCRDs :: "(key \<Rightarrow> error + 'c) \<Rightarrow> key list \<Rightarrow> 'c list \<Rightarrow> error + 'c list" where
  "listSystemCRDs g [] ret = Inr ret"
| "listSystemCRDs g (k # ks) ret =
    (case g k of
       Inl err \<Rightarrow> Inl (Wrapped ''error getting system CRD'' err)
     | Inr c \<Rightarrow> listSystemCRDs g ks (ret @ [c]))"

definition providerList :: "extlib \<Rightarrow> 'c systemCRDProvider \<Rightarrow> clusterName \<Rightarrow> error + 'c list" where
  "providerList L p clusterName =
    listSystemCRDs (getCRD p) (sorted_list_of_set (Keys L p clusterName)) []"

section \<open>The binding-aware CRD lister\<close>

text \<open>
  The queries of the two indexers: \<open>ByIndex(byWorkspace, cluster)\<close>,
  \<open>ByIndex(byGroupResourceName, name)\<close> and
  \<open>ByIndex(IndexAPIBindingsByIdentityGroupResource, IdentityGroupResourceKeyFunc(identity, group, resource))\<close>.
  The index names and the key function are declared elsewhere in the repository; a query
  is kept as the index and the values it is built from.
\<close>

datatype crdIndex = CRDsByWorkspace clusterName | ByGroupResourceName string
datatype bindingIndex = BindingsByWorkspace clusterName | ByIdentityGroupResource string string string

text \<open>
  \<open>apiBindingAwareCRDLister\<close> with the collaborators the functions below call. The type
  parameter is what the CRD lister and indexer hand out: CRD values, or pointers to
  cached CRD objects (section Pointers).
\<close>

record 'c lister =
  crdLister :: "key \<Rightarrow> error + 'c"
  crdIndexer :: "crdIndex \<Rightarrow> error + 'c list"
  apiBindingIndexer :: "bindingIndex \<Rightarrow> error + apiBinding list"
  systemCRDProvider :: "'c systemCRDProvider"

text \<open>
  The request context: the logical cluster (absent: \<open>request.ClusterNameFrom\<close> fails), the
  identity and the value stored under \<open>acceptHeaderContextKey\<close>, which may be missing or
  not be a string.
\<close>

datatype ctxValue = NoValue | StringValue string | OtherValue

record ctx =
  ctxCluster :: "clusterName option"
  ctxIdentity :: string
  ctxAccept :: ctxValue

datatype 'a outcome = Returns 'a | Panics

definition ClusterNameFrom :: "ctx \<Rightarrow> error + clusterName" where
  "ClusterNameFrom c = (case ctxCluster c of None \<Rightarrow> Inl MissingCluster | Some n \<Rightarrow> Inr n)"

text \<open>
  Modelled from the spec: \<open>IdentityFromContext\<close>, of another file of the package; the
  context carries an optional identity string, empty when there is none.
\<close>

definition IdentityFromContext :: "ctx \<Rightarrow> string" where
  "IdentityFromContext c = ctxIdentity c"

definition isPartialMetadataHeader :: "extlib \<Rightarrow> string \<Rightarrow> bool" where
  "isPartialMetadataHeader L accept =
    list_ex (\<lambda>params. params ''as'' = Some ''PartialObjectMetadata''
                     \<or> params ''as'' = Some ''PartialObjectMetadataList'')
            (ParseAccept L accept)"

text \<open>\<open>ctx.Value(acceptHeaderContextKey).(string)\<close> panics unless the value is a string.\<close>

definition isPartialMetadataRequest :: "extlib \<Rightarrow> ctx \<Rightarrow> bool outcome" where
  "isPartialMetadataRequest L c =
    (case ctxAccept c of
       StringValue accept \<Rightarrow> Returns (if accept = '''' then False else isPartialMetadataHeader L accept)
     | _ \<Rightarrow> Panics)"

text \<open>\<open>strings.SplitN(name, ".", 2)\<close>: the resource is what precedes the first dot.\<close>

definition crdNameToGroupResource :: "string \<Rightarrow> string \<times> string" where
  "crdNameToGroupResource name =
    (let resource = takeWhile (\<lambda>c. c \<noteq> CHR ''.'') name;
         grp = (if CHR ''.'' \<in> set name then tl (dropWhile (\<lambda>c. c \<noteq> CHR ''.'') name) else '''');
         grp = (if grp = ''core'' then '''' else grp)
     in (grp, resource))"

definition HasSuffix :: "string \<Rightarrow> string \<Rightarrow> bool" where
  "HasSuffix s suf = (length suf \<le> length s \<and> drop (length s - length suf) s = suf)"

subsection \<open>Transformations\<close>

text \<open>On values a copy is the value itself; the allocation is in section Pointers.\<close>

definition shallowCopyCRDAndDeepCopyAnnotations :: "vcrd \<Rightarrow> vcrd" where
  "shallowCopyCRDAndDeepCopyAnnotations in_crd = in_crd"

text \<open>
  \<open>apiextensionshelpers.FindCRDCondition\<close> and \<open>SetCRDCondition\<close> of the Kubernetes
  library, as documented there: \<open>FindCRDCondition\<close> finds the first condition of the type;
  \<open>SetCRDCondition\<close> stamps the new condition with the current time and either overwrites
  the status, reason and message of the existing condition (and its transition time,
  when the status changes or the time is zero) or appends the new condition.
\<close>

fun FindCRDCondition :: "condition list \<Rightarrow> string \<Rightarrow> nat option" where
  "FindCRDCondition [] t = None"
| "FindCRDCondition (c # cs) t =
    (if ctype c = t then Some 0 else map_option Suc (FindCRDCondition cs t))"

definition SetCRDCondition :: "time \<Rightarrow> 'm crd \<Rightarrow> condition \<Rightarrow> 'm crd" where
  "SetCRDCondition now c newCondition0 =
    (let newCondition = newCondition0\<lparr>lastTransitionTime := now\<rparr> in
     case FindCRDCondition (crdConditions c) (ctype newCondition) of
       None \<Rightarrow> c\<lparr>crdConditions := crdConditions c @ [newCondition]\<rparr>
     | Some i \<Rightarrow>
         (let existing = crdConditions c ! i;
              existing = (if cstatus existing \<noteq> cstatus newCondition \<or> lastTransitionTime existing = 0
                          then existing\<lparr>lastTransitionTime := lastTransitionTime newCondition\<rparr>
                          else existing);
              existing = existing\<lparr>cstatus := cstatus newCondition,
                                  reason := reason newCondition,
                                  message := message newCondition\<rparr>
          in c\<lparr>crdConditions := (crdConditions c)[i := existing]\<rparr>))"

definition terminatingCondition :: condition where
  "terminatingCondition =
    \<lparr>ctype = ''Terminating'', cstatus = ''True'', lastTransitionTime = 0, reason = '''', message = ''''\<rparr>"

text \<open>
  The status part of \<open>decorateCRDWithBinding\<close>, after the \<open>IsZero\<close> test:
  \<open>make([]Condition, len(in.Status.Conditions))\<close> is a slice of that many zero values, to
  which \<open>append\<close> adds the conditions of \<open>in\<close>.
\<close>

definition decorateTerminating :: "time \<Rightarrow> condition list \<Rightarrow> time option \<Rightarrow> 'm crd \<Rightarrow> 'm crd" where
  "decorateTerminating now inConditions deleteTime out =
    (let out = out\<lparr>crdConditions := replicate (length inConditions) zeroCondition\<rparr>;
         out = out\<lparr>crdConditions := crdConditions out @ inConditions\<rparr>;
         out = out\<lparr>crdDeletionTimestamp := deleteTime\<rparr>
     in SetCRDCondition now out terminatingCondition)"

definition decorateCRDWithBinding :: "extlib \<Rightarrow> vcrd \<Rightarrow> string \<Rightarrow> time option \<Rightarrow> vcrd" where
  "decorateCRDWithBinding L in_crd identity deleteTime =
    (let out = shallowCopyCRDAndDeepCopyAnnotations in_crd;
         out = out\<lparr>crdAnnotations := (crdAnnotations out)(AnnotationAPIIdentityKey \<mapsto> identity)\<rparr>
     in if IsZero deleteTime then out
        else decorateTerminating (Now L) (crdConditions in_crd) deleteTime out)"

definition minimalSchema :: jsonSchemaProps where
  "minimalSchema = \<lparr>schemaType = ''object'', properties = []\<rparr>"

text \<open>The versions part of \<open>makePartialMetadataCRD\<close>: a new slice, every schema replaced.\<close>

definition minimalVersions :: "'m crd \<Rightarrow> 'm crd" where
  "minimalVersions c =
    c\<lparr>crdSpec := (crdSpec c)\<lparr>specVersions :=
        map (\<lambda>v. v\<lparr>versionSchema := Some minimalSchema\<rparr>) (specVersions (crdSpec c))\<rparr>\<rparr>"

definition makePartialMetadataCRD :: "vcrd \<Rightarrow> vcrd" where
  "makePartialMetadataCRD c =
    minimalVersions (c\<lparr>crdAnnotations := (crdAnnotations c)(annotationKeyPartialMetadata \<mapsto> '''')\<rparr>)"

subsection \<open>Get\<close>

text \<open>
  The loop of \<open>getForFullDataWildcard\<close>; \<open>equality.Semantic.DeepEqual\<close> on two specs is
  equality of the specs. \<open>specOf\<close> reads the spec of an object of the index.
\<close>

fun fullDataLoop :: "('c \<Rightarrow> crdSpec) \<Rightarrow> 'c option \<Rightarrow> 'c list \<Rightarrow> error + 'c option" where
  "fullDataLoop specOf foundCRD [] = Inr foundCRD"
| "fullDataLoop specOf foundCRD (c # objs) =
    (case foundCRD of
       None \<Rightarrow> fullDataLoop specOf (Some c) objs
     | Some f \<Rightarrow>
         (if specOf f \<noteq> specOf c then Inl InternalError
          else fullDataLoop specOf foundCRD objs))"

definition getForFullDataWildcardOf :: "('c \<Rightarrow> crdSpec) \<Rightarrow> 'c lister \<Rightarrow> string \<Rightarrow> error + 'c" where
  "getForFullDataWildcardOf specOf c name =
    (case crdIndexer c (ByGroupResourceName name) of
       Inl err \<Rightarrow> Inl err
     | Inr objs \<Rightarrow>
         (case fullDataLoop specOf None objs of
            Inl err \<Rightarrow> Inl err
          | Inr None \<Rightarrow> Inl NotFound
          | Inr (Some foundCRD) \<Rightarrow> Inr foundCRD))"

definition getForFullDataWildcard :: "vcrd lister \<Rightarrow> string \<Rightarrow> error + vcrd" where
  "getForFullDataWildcard c name = getForFullDataWildcardOf crdSpec c name"

text \<open>
  The part of \<open>getForIdentity\<close> before the shadow CRD is fetched: the first binding of the
  index and its first bound resource that matches; the result is the key of the bound
  CRD and the binding's deletion timestamp.
\<close>

definition boundCRDForIdentity :: "'c lister \<Rightarrow> string \<Rightarrow> string \<Rightarrow> error + (key \<times> time option)" where
  "boundCRDForIdentity c name identity =
    (case crdNameToGroupResource name of (grp, resource) \<Rightarrow>
      (case apiBindingIndexer c (ByIdentityGroupResource identity grp resource) of
         Inl err \<Rightarrow> Inl err
       | Inr [] \<Rightarrow> Inl NotFound
       | Inr (apiBinding # _) \<Rightarrow>
           (let boundCRDName =
                  (case find (\<lambda>r. brGroup r = grp \<and> brResource r = resource \<and> brIdentityHash r = identity)
                             (boundResources apiBinding) of
                     None \<Rightarrow> ''''
                   | Some r \<Rightarrow> brSchemaUID r)
            in if boundCRDName = '''' then Inl NotFound
               else Inr (ToClusterAwareKey ShadowWorkspaceName boundCRDName,
                         bindingDeletionTimestamp apiBinding))))"

definition getForIdentity :: "extlib \<Rightarrow> vcrd lister \<Rightarrow> string \<Rightarrow> string \<Rightarrow> error + vcrd" where
  "getForIdentity L c name identity =
    (case boundCRDForIdentity c name identity of
       Inl err \<Rightarrow> Inl err
     | Inr (crdKey, deleteTime) \<Rightarrow>
         (case crdLister c crdKey of
            Inl err \<Rightarrow> Inl err
          | Inr crd \<Rightarrow> Inr (decorateCRDWithBinding L crd identity deleteTime)))"

definition getForWildcardPartialMetadata :: "'c lister \<Rightarrow> string \<Rightarrow> error + 'c" where
  "getForWildcardPartialMetadata c name =
    (case crdIndexer c (ByGroupResourceName name) of
       Inl err \<Rightarrow> Inl err
     | Inr [] \<Rightarrow> Inl NotFound
     | Inr (obj # _) \<Rightarrow> Inr obj)"

definition getSystemCRD :: "extlib \<Rightarrow> 'c lister \<Rightarrow> clusterName \<Rightarrow> string \<Rightarrow> error + 'c" where
  "getSystemCRD L c clusterName name =
    (if clusterName = Wildcard then crdLister c (ToClusterAwareKey SystemCRDLogicalCluster name)
     else if ToClusterAwareKey SystemCRDLogicalCluster name \<notin> Keys L (systemCRDProvider c) clusterName
       then Inl NotFound
     else crdLister c (ToClusterAwareKey SystemCRDLogicalCluster name))"

text \<open>
  The two nested loops of \<open>get\<close> over the bindings of the workspace and their bound
  resources stop at the first bound resource of a completed binding that matches the
  group and the resource.
\<close>

fun firstBoundResource :: "string \<Rightarrow> string \<Rightarrow> boundResource list \<Rightarrow> boundResource option" where
  "firstBoundResource grp resource [] = None"
| "firstBoundResource grp resource (br # brs) =
    (if brGroup br = grp \<and> brResource br = resource then Some br
     else firstBoundResource grp resource brs)"

fun firstBinding :: "string \<Rightarrow> string \<Rightarrow> apiBinding list \<Rightarrow> (apiBinding \<times> boundResource) option" where
  "firstBinding grp resource [] = None"
| "firstBinding grp resource (b # bs) =
    (if \<not> IsTrue b InitialBindingCompleted then firstBinding grp resource bs
     else (case firstBoundResource grp resource (boundResources b) of
             Some br \<Rightarrow> Some (b, br)
           | None \<Rightarrow> firstBinding grp resource bs))"

definition get :: "extlib \<Rightarrow> vcrd lister \<Rightarrow> clusterName \<Rightarrow> string \<Rightarrow> error + vcrd" where
  "get L c clusterName name =
    (case crdNameToGroupResource name of (grp, resource) \<Rightarrow>
      (case apiBindingIndexer c (BindingsByWorkspace clusterName) of
         Inl err \<Rightarrow> Inl err
       | Inr objs \<Rightarrow>
           (case firstBinding grp resource objs of
              Some (apiBinding, br) \<Rightarrow>
                (case crdLister c (ToClusterAwareKey ShadowWorkspaceName (brSchemaUID br)) of
                   Inl err \<Rightarrow> if IsNotFound err then Inl ServiceUnavailable else Inl err
                 | Inr crd \<Rightarrow>
                     Inr (decorateCRDWithBinding L crd (brIdentityHash br) (bindingDeletionTimestamp apiBinding)))
            | None \<Rightarrow>
                (case crdLister c (ToClusterAwareKey clusterName name) of
                   Inl err \<Rightarrow> if \<not> IsNotFound err then Inl err else Inl NotFound
                 | Inr crd \<Rightarrow> Inr crd))))"

text \<open>The resolution of \<open>Get\<close> once the system lookup has missed, in priority order.\<close>

definition resolveNonSystem ::
  "extlib \<Rightarrow> vcrd lister \<Rightarrow> ctx \<Rightarrow> clusterName \<Rightarrow> bool \<Rightarrow> string \<Rightarrow> error + vcrd" where
  "resolveNonSystem L c cx clusterName partialMetadataRequest name =
    (let identity = IdentityFromContext cx in
     if identity \<noteq> '''' then getForIdentity L c name identity
     else if clusterName = Wildcard \<and> partialMetadataRequest then getForWildcardPartialMetadata c name
     else if clusterName = Wildcard then getForFullDataWildcard c name
     else get L c clusterName name)"

text \<open>The end of \<open>Get\<close>: the projection of a partial-metadata request.\<close>

definition projectResult :: "clusterName \<Rightarrow> bool \<Rightarrow> string \<Rightarrow> vcrd \<Rightarrow> vcrd" where
  "projectResult clusterName partialMetadataRequest name crd =
    (if partialMetadataRequest then
       (let crd = shallowCopyCRDAndDeepCopyAnnotations crd;
            crd = makePartialMetadataCRD crd
        in if clusterName = Wildcard then crd\<lparr>crdUID := name @ ''.wildcard.partial-metadata''\<rparr> else crd)
     else crd)"

definition Get :: "extlib \<Rightarrow> vcrd lister \<Rightarrow> ctx \<Rightarrow> string \<Rightarrow> (error + vcrd) outcome" where
  "Get L c cx name =
    (case ClusterNameFrom cx of
       Inl err \<Rightarrow> Returns (Inl err)
     | Inr clusterName \<Rightarrow>
         (let sys = getSystemCRD L c clusterName name in
          if (case sys of Inl err \<Rightarrow> \<not> IsNotFound err | Inr _ \<Rightarrow> False)
            then Returns (case sys of Inl err \<Rightarrow> Inl err | Inr crd \<Rightarrow> Inr crd)
          else
            (case isPartialMetadataRequest L cx of
               Panics \<Rightarrow> Panics
             | Returns partialMetadataRequest \<Rightarrow>
                 (case (case sys of
                          Inr crd \<Rightarrow> Inr crd
                        | Inl _ \<Rightarrow> resolveNonSystem L c cx clusterName partialMetadataRequest name) of
                    Inl err \<Rightarrow> Returns (Inl err)
                  | Inr crd \<Rightarrow> Returns (Inr (projectResult clusterName partialMetadataRequest name crd))))))"

subsection \<open>Refresh\<close>

text \<open>\<open>crd.Annotations[key]\<close> reads the empty string for a key that is absent.\<close>

definition annotationOf :: "(string \<rightharpoonup> string) \<Rightarrow> string \<Rightarrow> string" where
  "annotationOf m k = (case m k of None \<Rightarrow> '''' | Some v \<Rightarrow> v)"

definition Refresh :: "vcrd lister \<Rightarrow> vcrd \<Rightarrow> error + vcrd" where
  "Refresh c crd =
    (case crdLister c (ToClusterAwareKey (crdClusterName crd) (crdName crd)) of
       Inl err \<Rightarrow> Inl err
     | Inr updatedCRD \<Rightarrow>
         (let refreshed = shallowCopyCRDAndDeepCopyAnnotations updatedCRD;
              identity = annotationOf (crdAnnotations crd) AnnotationAPIIdentityKey;
              refreshed = (if identity \<noteq> ''''
                           then refreshed\<lparr>crdAnnotations := (crdAnnotations refreshed)(AnnotationAPIIdentityKey \<mapsto> identity)\<rparr>
                           else refreshed);
              refreshed = (if crdAnnotations crd annotationKeyPartialMetadata \<noteq> None then
                             (let refreshed = makePartialMetadataCRD refreshed
                              in if HasSuffix (crdUID crd) ''.wildcard.partial-metadata''
                                 then refreshed\<lparr>crdUID := crdUID crd\<rparr> else refreshed)
                           else refreshed)
          in Inr refreshed))"

subsection \<open>List\<close>

text \<open>
  What \<open>List\<close> writes through \<open>klog\<close> in its own body: the error of a bound CRD that could
  not be fetched, and the two notices of a CRD skipped because its name was seen.
\<close>

datatype logEntry =
    ErrorGettingBoundCRD key error
  | SkippingAPIBindingCRD string
  | SkippingLocalCRD string

definition crdNameOf :: "'m crd \<Rightarrow> string" where
  "crdNameOf c = namesPlural (crdSpec c) @ ''.'' @ specGroup (crdSpec c)"

type_synonym listState = "vcrd list \<times> string set \<times> logEntry list"

text \<open>The body of the loop over the bound resources of one binding.\<close>

definition boundResourceStep ::
  "extlib \<Rightarrow> vcrd lister \<Rightarrow> ((string \<rightharpoonup> string) \<Rightarrow> bool) \<Rightarrow> apiBinding \<Rightarrow> boundResource \<Rightarrow> listState \<Rightarrow> listState" where
  "boundResourceStep L c selector apiBinding br st =
    (case st of (ret, seen, lg) \<Rightarrow>
      (let crdKey = ToClusterAwareKey ShadowWorkspaceName (brSchemaUID br) in
       case crdLister c crdKey of
         Inl err \<Rightarrow> (ret, seen, lg @ [ErrorGettingBoundCRD crdKey err])
       | Inr crd \<Rightarrow>
           (if \<not> selector (crdLabels crd) then (ret, seen, lg)
            else if crdNameOf crd \<in> seen then (ret, seen, lg @ [SkippingAPIBindingCRD (crdName crd)])
            else (let crd = decorateCRDWithBinding L crd (brIdentityHash br) (bindingDeletionTimestamp apiBinding)
                  in (ret @ [crd], insert (crdNameOf crd) seen, lg)))))"

text \<open>The body of the loop over the bindings: a binding that is not completed is passed over.\<close>

definition bindingStep ::
  "extlib \<Rightarrow> vcrd lister \<Rightarrow> ((string \<rightharpoonup> string) \<Rightarrow> bool) \<Rightarrow> apiBinding \<Rightarrow> listState \<Rightarrow> listState" where
  "bindingStep L c selector apiBinding st =
    (if \<not> IsTrue apiBinding InitialBindingCompleted then st
     else fold (boundResourceStep L c selector apiBinding) (boundResources apiBinding) st)"

definition listBindings ::
  "extlib \<Rightarrow> vcrd lister \<Rightarrow> ((string \<rightharpoonup> string) \<Rightarrow> bool) \<Rightarrow> apiBinding list \<Rightarrow> listState \<Rightarrow> listState" where
  "listBindings L c selector objs st = fold (bindingStep L c selector) objs st"

text \<open>The body of the loop over the local CRDs; it does not add to \<open>seen\<close>.\<close>

definition localStep :: "((string \<rightharpoonup> string) \<Rightarrow> bool) \<Rightarrow> vcrd \<Rightarrow> listState \<Rightarrow> listState" where
  "localStep selector crd st =
    (case st of (ret, seen, lg) \<Rightarrow>
      (if \<not> selector (crdLabels crd) then (ret, seen, lg)
       else if crdNameOf crd \<in> seen then (ret, seen, lg @ [SkippingLocalCRD (crdName crd)])
       else (ret @ [crd], seen, lg)))"

definition listLocal :: "((string \<rightharpoonup> string) \<Rightarrow> bool) \<Rightarrow> vcrd list \<Rightarrow> listState \<Rightarrow> listState" where
  "listLocal selector objs st = fold (localStep selector) objs st"

text \<open>\<open>List\<close> returns its result and what it logged.\<close>

definition List ::
  "extlib \<Rightarrow> vcrd lister \<Rightarrow> ctx \<Rightarrow> ((string \<rightharpoonup> string) \<Rightarrow> bool) \<Rightarrow> (error + vcrd list) \<times> logEntry list" where
  "List L c cx selector =
    (case ClusterNameFrom cx of
       Inl err \<Rightarrow> (Inl err, [])
     | Inr clusterName \<Rightarrow>
         (case providerList L (systemCRDProvider c) clusterName of
            Inl err \<Rightarrow> (Inl (Wrapped ''error retrieving kcp system CRDs'' err), [])
          | Inr kcpSystemCRDs \<Rightarrow>
              (let st = (kcpSystemCRDs, set (map crdNameOf kcpSystemCRDs), []) in
               case apiBindingIndexer c (BindingsByWorkspace clusterName) of
                 Inl err \<Rightarrow> (Inl err, [])
               | Inr objs \<Rightarrow>
                   (let st = listBindings L c selector objs st in
                    case crdIndexer c (CRDsByWorkspace clusterName) of
                      Inl err \<Rightarrow> (Inl err, snd (snd st))
                    | Inr locals \<Rightarrow>
                        (case listLocal selector locals st of (ret, seen, lg) \<Rightarrow> (Inr ret, lg))))))"

section \<open>The API reconciler\<close>

text \<open>
  \<open>APIReconciler\<close>: the registry \<open>apiSets\<close> maps an API domain key to a set of API
  definitions, itself a map from a group-version-resource to an \<open>APIDefinition\<close>. Both
  maps are association lists with distinct keys, whose order stands for the order in
  which \<open>range\<close> visits the map. An \<open>APIDefinition\<close> is known by an identifier, and the only
  effect of \<open>TearDown\<close> kept is that it happened: \<open>tornDown\<close> is the sequence of the
  definitions on which \<open>TearDown\<close> was called. The mutex is not modelled: the functions
  run one after the other.
\<close>

type_synonym apiDefinition = nat
type_synonym apiDefinitionSet = "(string \<times> apiDefinition) list"

record syncTarget =
  syncedResources :: "string list"

record reconciler =
  apiSets :: "(string \<times> apiDefinitionSet) list"
  tornDown :: "apiDefinition list"

definition TearDown :: "apiDefinition \<Rightarrow> reconciler \<Rightarrow> reconciler" where
  "TearDown v r = r\<lparr>tornDown := tornDown r @ [v]\<rparr>"

definition GetAPIDefinitionSet :: "reconciler \<Rightarrow> string \<Rightarrow> apiDefinitionSet option" where
  "GetAPIDefinitionSet r k = map_of (apiSets r) k"

text \<open>\<open>delete(c.apiSets, key)\<close>, and nothing else.\<close>

definition removeAPIDefinitionSet :: "reconciler \<Rightarrow> string \<Rightarrow> reconciler" where
  "removeAPIDefinitionSet r k = r\<lparr>apiSets := filter (\<lambda>(k', sets). k' \<noteq> k) (apiSets r)\<rparr>"

text \<open>
  \<open>process\<close>: the error it returns, if any, and the reconciler afterwards. The sync-target
  lister and \<open>reconcile\<close> (another file of the package, not among the sources here) are
  parameters.
\<close>

definition process ::
  "(string \<Rightarrow> error + syncTarget) \<Rightarrow> (reconciler \<Rightarrow> string \<Rightarrow> syncTarget \<Rightarrow> error option \<times> reconciler)
    \<Rightarrow> reconciler \<Rightarrow> string \<Rightarrow> error option \<times> reconciler" where
  "process syncTargetLister reconcile r k =
    (case syncTargetLister k of
       Inl err \<Rightarrow> if IsNotFound err then (None, removeAPIDefinitionSet r k) else (Some err, r)
     | Inr target \<Rightarrow> reconcile r k target)"

text \<open>
  What \<open>Start\<close> does once the context is done: the deferred function calls \<open>TearDown\<close> on
  every definition of every set of the registry.
\<close>

definition Start :: "reconciler \<Rightarrow> reconciler" where
  "Start r = fold (\<lambda>(k, sets) r. fold (\<lambda>(gvr, v) r. TearDown v r) sets r) (apiSets r) r"

text \<open>A run: the worker processes the keys one after the other, then the reconciler stops.\<close>

definition runReconciler ::
  "(string \<Rightarrow> error + syncTarget) \<Rightarrow> (reconciler \<Rightarrow> string \<Rightarrow> syncTarget \<Rightarrow> error option \<times> reconciler)
    \<Rightarrow> reconciler \<Rightarrow> string list \<Rightarrow> reconciler" where
  "runReconciler syncTargetLister reconcile r ks =
     Start (fold (\<lambda>k r. snd (process syncTargetLister reconcile r k)) ks r)"

section \<open>Pointers\<close>

text \<open>
  The lister and the indexer hand out pointers to the CRD objects of the informer
  cache, and a Go map is a reference to a map object. Where a claim depends on what is
  shared, the store is explicit: a heap of CRD structs, whose annotations field is a
  reference to a map object (\<open>None\<close> is the nil map), and of map objects. Addresses below
  \<open>nextCRD\<close> and \<open>nextMap\<close> are allocated.
\<close>

type_synonym addr = nat
type_synonym pcrd = "addr option crd"

record heap =
  crdObjects :: "addr \<Rightarrow> pcrd"
  mapObjects :: "addr \<Rightarrow> (string \<rightharpoonup> string)"
  nextCRD :: addr
  nextMap :: addr

text \<open>Reading a nil map finds no key.\<close>

definition readAnnotations :: "heap \<Rightarrow> addr option \<Rightarrow> (string \<rightharpoonup> string)" where
  "readAnnotations h r = (case r of None \<Rightarrow> Map.empty | Some a \<Rightarrow> mapObjects h a)"

text \<open>The CRD value that a pointer stands for in a heap.\<close>

definition view :: "heap \<Rightarrow> addr \<Rightarrow> vcrd" where
  "view h p =
    (let s = crdObjects h p in
     \<lparr>crdName = crdName s, crdClusterName = crdClusterName s, crdUID = crdUID s,
      crdLabels = crdLabels s, crdAnnotations = readAnnotations h (crdAnnotations s),
      crdDeletionTimestamp = crdDeletionTimestamp s, crdSpec = crdSpec s,
      crdConditions = crdConditions s\<rparr>)"

definition newMap :: "heap \<Rightarrow> (string \<rightharpoonup> string) \<Rightarrow> addr \<times> heap" where
  "newMap h m = (nextMap h, h\<lparr>mapObjects := (mapObjects h)(nextMap h := m), nextMap := Suc (nextMap h)\<rparr>)"

definition newCRD :: "heap \<Rightarrow> pcrd \<Rightarrow> addr \<times> heap" where
  "newCRD h s = (nextCRD h, h\<lparr>crdObjects := (crdObjects h)(nextCRD h := s), nextCRD := Suc (nextCRD h)\<rparr>)"

text \<open>
  A change of the map that the annotations field of the object at \<open>p\<close> refers to. Writing
  to a nil map panics.
\<close>

definition mutateAnnotations ::
  "heap \<Rightarrow> addr \<Rightarrow> ((string \<rightharpoonup> string) \<Rightarrow> (string \<rightharpoonup> string)) \<Rightarrow> heap outcome" where
  "mutateAnnotations h p f =
    (case crdAnnotations (crdObjects h p) of
       None \<Rightarrow> Panics
     | Some a \<Rightarrow> Returns (h\<lparr>mapObjects := (mapObjects h)(a := f (mapObjects h a))\<rparr>))"

text \<open>\<open>crd.Annotations[k] = v\<close>.\<close>

definition setAnnotation :: "heap \<Rightarrow> addr \<Rightarrow> string \<Rightarrow> string \<Rightarrow> heap outcome" where
  "setAnnotation h p k v = mutateAnnotations h p (\<lambda>m. m(k \<mapsto> v))"

text \<open>An assignment to fields of the struct at \<open>p\<close> other than the annotations.\<close>

definition updateCRD :: "heap \<Rightarrow> addr \<Rightarrow> (pcrd \<Rightarrow> pcrd) \<Rightarrow> heap" where
  "updateCRD h p f = h\<lparr>crdObjects := (crdObjects h)(p := f (crdObjects h p))\<rparr>"

text \<open>
  \<open>shallowCopyCRDAndDeepCopyAnnotations\<close>: \<open>out := *in\<close> copies the struct, a new map gets
  the entries of the annotations of \<open>in\<close>, and \<open>&out\<close> is a new object.
\<close>

definition shallowCopyCRDAndDeepCopyAnnotationsP :: "heap \<Rightarrow> addr \<Rightarrow> addr \<times> heap" where
  "shallowCopyCRDAndDeepCopyAnnotationsP h in_ptr =
    (let out = crdObjects h in_ptr in
     case newMap h (readAnnotations h (crdAnnotations out)) of
       (m, h) \<Rightarrow> newCRD h (out\<lparr>crdAnnotations := Some m\<rparr>))"

definition decorateCRDWithBindingP ::
  "extlib \<Rightarrow> heap \<Rightarrow> addr \<Rightarrow> string \<Rightarrow> time option \<Rightarrow> (addr \<times> heap) outcome" where
  "decorateCRDWithBindingP L h in_ptr identity deleteTime =
    (case shallowCopyCRDAndDeepCopyAnnotationsP h in_ptr of
       (out, h) \<Rightarrow>
         (case setAnnotation h out AnnotationAPIIdentityKey identity of
            Panics \<Rightarrow> Panics
          | Returns h \<Rightarrow>
              if IsZero deleteTime then Returns (out, h)
              else Returns (out, updateCRD h out
                     (decorateTerminating (Now L) (crdConditions (crdObjects h in_ptr)) deleteTime))))"

definition makePartialMetadataCRDP :: "heap \<Rightarrow> addr \<Rightarrow> heap outcome" where
  "makePartialMetadataCRDP h crd =
    (case setAnnotation h crd annotationKeyPartialMetadata '''' of
       Panics \<Rightarrow> Panics
     | Returns h \<Rightarrow> Returns (updateCRD h crd minimalVersions))"

type_synonym presult = "((error + addr) \<times> heap) outcome"

definition getForIdentityP :: "extlib \<Rightarrow> heap \<Rightarrow> addr lister \<Rightarrow> string \<Rightarrow> string \<Rightarrow> presult" where
  "getForIdentityP L h c name identity =
    (case boundCRDForIdentity c name identity of
       Inl err \<Rightarrow> Returns (Inl err, h)
     | Inr (crdKey, deleteTime) \<Rightarrow>
         (case crdLister c crdKey of
            Inl err \<Rightarrow> Returns (Inl err, h)
          | Inr crd \<Rightarrow>
              (case decorateCRDWithBindingP L h crd identity deleteTime of
                 Panics \<Rightarrow> Panics
               | Returns (out, h) \<Rightarrow> Returns (Inr out, h))))"

definition getP :: "extlib \<Rightarrow> heap \<Rightarrow> addr lister \<Rightarrow> clusterName \<Rightarrow> string \<Rightarrow> presult" where
  "getP L h c clusterName name =
    (case crdNameToGroupResource name of (grp, resource) \<Rightarrow>
      (case apiBindingIndexer c (BindingsByWorkspace clusterName) of
         Inl err \<Rightarrow> Returns (Inl err, h)
       | Inr objs \<Rightarrow>
           (case firstBinding grp resource objs of
              Some (apiBinding, br) \<Rightarrow>
                (case crdLister c (ToClusterAwareKey ShadowWorkspaceName (brSchemaUID br)) of
                   Inl err \<Rightarrow> Returns (if IsNotFound err then Inl ServiceUnavailable else Inl err, h)
                 | Inr crd \<Rightarrow>
                     (case decorateCRDWithBindingP L h crd (brIdentityHash br)
                             (bindingDeletionTimestamp apiBinding) of
                        Panics \<Rightarrow> Panics
                      | Returns (out, h) \<Rightarrow> Returns (Inr out, h)))
            | None \<Rightarrow>
                (case crdLister c (ToClusterAwareKey clusterName name) of
                   Inl err \<Rightarrow> Returns (if \<not> IsNotFound err then Inl err else Inl NotFound, h)
                 | Inr crd \<Rightarrow> Returns (Inr crd, h)))))"

definition resolveNonSystemP ::
  "extlib \<Rightarrow> heap \<Rightarrow> addr lister \<Rightarrow> ctx \<Rightarrow> clusterName \<Rightarrow> bool \<Rightarrow> string \<Rightarrow> presult" where
  "resolveNonSystemP L h c cx clusterName partialMetadataRequest name =
    (let identity = IdentityFromContext cx in
     if identity \<noteq> '''' then getForIdentityP L h c name identity
     else if clusterName = Wildcard \<and> partialMetadataRequest
       then Returns (getForWildcardPartialMetadata c name, h)
     else if clusterName = Wildcard
       then Returns (getForFullDataWildcardOf (\<lambda>p. crdSpec (crdObjects h p)) c name, h)
     else getP L h c clusterName name)"

definition projectResultP :: "clusterName \<Rightarrow> bool \<Rightarrow> string \<Rightarrow> heap \<Rightarrow> addr \<Rightarrow> (addr \<times> heap) outcome" where
  "projectResultP clusterName partialMetadataRequest name h crd =
    (if partialMetadataRequest then
       (case shallowCopyCRDAndDeepCopyAnnotationsP h crd of
          (crd, h) \<Rightarrow>
            (case makePartialMetadataCRDP h crd of
               Panics \<Rightarrow> Panics
             | Returns h \<Rightarrow>
                 if clusterName = Wildcard
                 then Returns (crd, updateCRD h crd (\<lambda>s. s\<lparr>crdUID := name @ ''.wildcard.partial-metadata''\<rparr>))
                 else Returns (crd, h)))
     else Returns (crd, h))"

definition GetP :: "extlib \<Rightarrow> heap \<Rightarrow> addr lister \<Rightarrow> ctx \<Rightarrow> string \<Rightarrow> presult" where
  "GetP L h c cx name =
    (case ClusterNameFrom cx of
       Inl err \<Rightarrow> Returns (Inl err, h)
     | Inr clusterName \<Rightarrow>
         (let sys = getSystemCRD L c clusterName name in
          if (case sys of Inl err \<Rightarrow> \<not> IsNotFound err | Inr _ \<Rightarrow> False)
            then Returns (case sys of Inl err \<Rightarrow> Inl err | Inr crd \<Rightarrow> Inr crd, h)
          else
            (case isPartialMetadataRequest L cx of
               Panics \<Rightarrow> Panics
             | Returns partialMetadataRequest \<Rightarrow>
                 (case (case sys of
                          Inr crd \<Rightarrow> Returns (Inr crd, h)
                        | Inl _ \<Rightarrow> resolveNonSystemP L h c cx clusterName partialMetadataRequest name) of
                    Panics \<Rightarrow> Panics
                  | Returns (Inl err, h) \<Rightarrow> Returns (Inl err, h)
                  | Returns (Inr crd, h) \<Rightarrow>
                      (case projectResultP clusterName partialMetadataRequest name h crd of
                         Panics \<Rightarrow> Panics
                       | Returns (crd, h) \<Rightarrow> Returns (Inr crd, h))))))"

text \<open>
  What a result and a lister of pointers stand for in a heap: the values of section
  \<open>The binding-aware CRD lister\<close>.
\<close>

definition viewResult :: "presult \<Rightarrow> (error + vcrd) outcome" where
  "viewResult r = (case r of Panics \<Rightarrow> Panics | Returns (x, h) \<Rightarrow> Returns (map_sum id (view h) x))"

definition viewProvider :: "heap \<Rightarrow> addr systemCRDProvider \<Rightarrow> vcrd systemCRDProvider" where
  "viewProvider h p =
    \<lparr>commonCRDs = commonCRDs p, rootCRDs = rootCRDs p, orgCRDs = orgCRDs p,
     universalCRDs = universalCRDs p, getClusterWorkspace = getClusterWorkspace p,
     getCRD = (\<lambda>k. map_sum id (view h) (getCRD p k))\<rparr>"

definition viewLister :: "heap \<Rightarrow> addr lister \<Rightarrow> vcrd lister" where
  "viewLister h c =
    \<lparr>crdLister = (\<lambda>k. map_sum id (view h) (crdLister c k)),
     crdIndexer = (\<lambda>q. map_sum id (map (view h)) (crdIndexer c q)),
     apiBindingIndexer = apiBindingIndexer c,
     systemCRDProvider = viewProvider h (systemCRDProvider c)\<rparr>"

text \<open>
  An object of the cache: an allocated struct whose annotations map, if any, is
  allocated. In a well-formed cache the lister, the indexer and \<open>getCRD\<close> hand out such
  objects.
\<close>

definition cached :: "heap \<Rightarrow> addr \<Rightarrow> bool" where
  "cached h p =
    (p < nextCRD h \<and> (case crdAnnotations (crdObjects h p) of None \<Rightarrow> True | Some a \<Rightarrow> a < nextMap h))"

definition cacheInHeap :: "heap \<Rightarrow> addr lister \<Rightarrow> bool" where
  "cacheInHeap h c =
    ((\<forall>k p. crdLister c k = Inr p \<longrightarrow> cached h p)
     \<and> (\<forall>q ps. crdIndexer c q = Inr ps \<longrightarrow> list_all (cached h) ps)
     \<and> (\<forall>k p. getCRD (systemCRDProvider c) k = Inr p \<longrightarrow> cached h p))"

text \<open>
  \<open>extends h h'\<close>: \<open>h'\<close> has what is allocated in \<open>h\<close>, unchanged. \<open>newObject h h' p\<close>: \<open>p\<close> and
  its annotations map are allocated in \<open>h'\<close> and not in \<open>h\<close>.
\<close>

definition extends :: "heap \<Rightarrow> heap \<Rightarrow> bool" where
  "extends h h' =
    (nextCRD h \<le> nextCRD h' \<and> nextMap h \<le> nextMap h'
     \<and> (\<forall>p < nextCRD h. crdObjects h' p = crdObjects h p)
     \<and> (\<forall>a < nextMap h. mapObjects h' a = mapObjects h a))"

definition newObject :: "heap \<Rightarrow> heap \<Rightarrow> addr \<Rightarrow> bool" where
  "newObject h h' p =
    (nextCRD h \<le> p \<and> p < nextCRD h'
     \<and> (case crdAnnotations (crdObjects h' p) of
          None \<Rightarrow> False
        | Some a \<Rightarrow> nextMap h \<le> a \<and> a < nextMap h'))"

text \<open>
  The requests for which \<open>Get\<close> decorates or projects what it found: a partial-metadata
  request, and otherwise, when the system lookup has no schema, a request with an
  identity or a single-cluster request for which a completed binding has a matching
  bound resource.
\<close>

definition handsOutCopy :: "extlib \<Rightarrow> 'c lister \<Rightarrow> ctx \<Rightarrow> string \<Rightarrow> bool" where
  "handsOutCopy L c cx name =
    (case ctxCluster cx of
       None \<Rightarrow> False
     | Some clusterName \<Rightarrow>
         isPartialMetadataRequest L cx = Returns True
         \<or> (case getSystemCRD L c clusterName name of
               Inr _ \<Rightarrow> False
             | Inl _ \<Rightarrow>
                 ctxIdentity cx \<noteq> ''''
                 \<or> (clusterName \<noteq> Wildcard
                    \<and> (case crdNameToGroupResource name of (grp, resource) \<Rightarrow>
                         (case apiBindingIndexer c (BindingsByWorkspace clusterName) of
                            Inl _ \<Rightarrow> False
                          | Inr objs \<Rightarrow> firstBinding grp resource objs \<noteq> None)))))"

text \<open>
  Notions used to state what \<open>List\<close> does with a bound resource whose shadow CRD cannot be
  fetched: the key of the shadow CRD, whether the fetch succeeds, a binding without the
  bound resources whose fetch fails, and the part of the loop state that is returned.
\<close>

definition shadowKey :: "boundResource \<Rightarrow> key" where
  "shadowKey br = ToClusterAwareKey ShadowWorkspaceName (brSchemaUID br)"

definition fetchable :: "'c lister \<Rightarrow> boundResource \<Rightarrow> bool" where
  "fetchable c br = (case crdLister c (shadowKey br) of Inl _ \<Rightarrow> False | Inr _ \<Rightarrow> True)"

definition withoutUnfetchable :: "'c lister \<Rightarrow> apiBinding \<Rightarrow> apiBinding" where
  "withoutUnfetchable c b = b\<lparr>boundResources := filter (fetchable c) (boundResources b)\<rparr>"

definition listed :: "listState \<Rightarrow> vcrd list \<times> string set" where
  "listed st = (fst st, fst (snd st))"

definition logged :: "listState \<Rightarrow> logEntry list" where
  "logged st = snd (snd st)"

section \<open>A sample environment\<close>

text \<open>
  One concrete library and one concrete workspace table, used to run the definitions on
  explicit inputs: \<open>HasPrefix\<close> as \<open>strings.HasPrefix\<close> on the names, \<open>Split\<close> at the last
  colon, and an accept-header parser that knows two headers.
\<close>

definition sampleSplit :: "clusterName \<Rightarrow> clusterName \<times> string" where
  "sampleSplit n =
    (if CHR '':'' \<in> set n
     then (rev (tl (dropWhile (\<lambda>c. c \<noteq> CHR '':'') (rev n))), rev (takeWhile (\<lambda>c. c \<noteq> CHR '':'') (rev n)))
     else ('''', n))"

definition sampleParseAccept :: "string \<Rightarrow> (string \<rightharpoonup> string) list" where
  "sampleParseAccept accept =
    (if accept = ''application/json;as=PartialObjectMetadataList''
       then [[''as'' \<mapsto> ''PartialObjectMetadataList'']]
     else if accept = '''' then []
     else [Map.empty])"

definition sampleLib :: extlib where
  "sampleLib = \<lparr>HasPrefix = (\<lambda>n other. take (length other) n = other),
                 Split = sampleSplit,
                 ParseAccept = sampleParseAccept,
                 Now = 100\<rparr>"

definition sampleWorkspaces :: "key \<Rightarrow> error + clusterWorkspace" where
  "sampleWorkspaces k =
    (if k = (''root'', ''org'') then Inr \<lparr>workspaceTypeName = ''Organization''\<rparr>
     else if k = (''root:org'', ''team'') then Inr \<lparr>workspaceTypeName = ''Team''\<rparr>
     else if k = (''root:org'', ''ws'') then Inr \<lparr>workspaceTypeName = ''Universal''\<rparr>
     else if k = (''root:org'', ''custom'') then Inr \<lparr>workspaceTypeName = ''Custom''\<rparr>
     else if k = (''root:org'', ''broken'') then Inl (StoreError ''etcd'')
     else Inl NotFound)"

text \<open>
  Sample CRDs: a system CRD, a bound CRD of the shadow workspace (named by its schema
  UID), and local CRDs of two workspaces.
\<close>

definition establishedCondition :: condition where
  "establishedCondition =
    \<lparr>ctype = ''Established'', cstatus = ''True'', lastTransitionTime = 7, reason = ''ok'', message = ''''\<rparr>"

definition sampleCRD :: "clusterName \<Rightarrow> string \<Rightarrow> string \<Rightarrow> string \<Rightarrow> string \<Rightarrow> string list \<Rightarrow> vcrd" where
  "sampleCRD cluster name uid grp plural props =
    \<lparr>crdName = name, crdClusterName = cluster, crdUID = uid, crdLabels = Map.empty,
     crdAnnotations = Map.empty, crdDeletionTimestamp = None,
     crdSpec = \<lparr>specGroup = grp, namesPlural = plural,
                specVersions = [\<lparr>versionName = ''v1'',
                                 versionSchema = Some \<lparr>schemaType = ''object'', properties = props\<rparr>\<rparr>]\<rparr>,
     crdConditions = [establishedCondition]\<rparr>"

definition systemWorkspacesCRD :: vcrd where
  "systemWorkspacesCRD =
    sampleCRD ''system:system-crds'' ''workspaces.tenancy.kcp.dev'' ''u-sys'' ''tenancy.kcp.dev'' ''workspaces'' [''spec'']"

definition boundWidgetsCRD :: vcrd where
  "boundWidgetsCRD = sampleCRD ''system:bound-crds'' ''u-widgets'' ''u-bound'' ''example.io'' ''widgets'' [''size'']"

definition localWidgetsCRD :: vcrd where
  "localWidgetsCRD = sampleCRD ''root:org:ws'' ''widgets.example.io'' ''u-w1'' ''example.io'' ''widgets'' [''colour'']"

definition localGadgetsCRD :: vcrd where
  "localGadgetsCRD = sampleCRD ''root:org:ws'' ''gadgets.example.io'' ''u-g1'' ''example.io'' ''gadgets'' [''a'']"

definition otherGadgetsCRD :: vcrd where
  "otherGadgetsCRD = sampleCRD ''root:org:team'' ''gadgets.example.io'' ''u-g2'' ''example.io'' ''gadgets'' [''a'']"

definition otherWidgetsCRD :: vcrd where
  "otherWidgetsCRD = sampleCRD ''root:org:team'' ''widgets.example.io'' ''u-w2'' ''example.io'' ''widgets'' [''weight'']"

definition sampleCRDLister :: "key \<Rightarrow> error + vcrd" where
  "sampleCRDLister k =
    (if k = (''system:system-crds'', ''workspaces.tenancy.kcp.dev'') then Inr systemWorkspacesCRD
     else if k = (''system:bound-crds'', ''u-widgets'') then Inr boundWidgetsCRD
     else if k = (''root:org:ws'', ''widgets.example.io'') then Inr localWidgetsCRD
     else if k = (''root:org:ws'', ''gadgets.example.io'') then Inr localGadgetsCRD
     else if k = (''root:org:team'', ''gadgets.example.io'') then Inr otherGadgetsCRD
     else if k = (''root:org:team'', ''widgets.example.io'') then Inr otherWidgetsCRD
     else Inl NotFound)"

definition sampleCRDIndexer :: "crdIndex \<Rightarrow> error + vcrd list" where
  "sampleCRDIndexer q =
    (case q of
       CRDsByWorkspace w \<Rightarrow>
         (if w = ''root:org:ws'' then Inr [localWidgetsCRD, localGadgetsCRD]
          else if w = ''root:org:team'' then Inr [otherGadgetsCRD, otherWidgetsCRD]
          else if w = ''root:org:broken'' then Inl (StoreError ''index'')
          else Inr [])
     | ByGroupResourceName n \<Rightarrow>
         (if n = ''widgets.example.io'' then Inr [localWidgetsCRD, otherWidgetsCRD]
          else if n = ''gadgets.example.io'' then Inr [localGadgetsCRD, otherGadgetsCRD]
          else Inr []))"

text \<open>
  Sample bindings of workspace \<open>root:org:ws\<close>: one that is not completed, and a completed
  one, being deleted, with a bound resource whose shadow CRD is missing (\<open>gizmos\<close>) and one
  whose shadow CRD exists (\<open>widgets\<close>).
\<close>

definition pendingBinding :: apiBinding where
  "pendingBinding =
    \<lparr>bindingName = ''pending'', bindingConditions = [(''InitialBindingCompleted'', ''False'')],
     bindingDeletionTimestamp = None,
     boundResources = [\<lparr>brGroup = ''example.io'', brResource = ''gadgets'', brSchemaUID = ''u-none'',
                        brIdentityHash = ''id0''\<rparr>]\<rparr>"

definition widgetsBinding :: apiBinding where
  "widgetsBinding =
    \<lparr>bindingName = ''widgets'', bindingConditions = [(''InitialBindingCompleted'', ''True'')],
     bindingDeletionTimestamp = Some 42,
     boundResources = [\<lparr>brGroup = ''example.io'', brResource = ''gizmos'', brSchemaUID = ''u-gizmos'',
                        brIdentityHash = ''id1''\<rparr>,
                       \<lparr>brGroup = ''example.io'', brResource = ''widgets'', brSchemaUID = ''u-widgets'',
                        brIdentityHash = ''id1''\<rparr>]\<rparr>"

definition sampleBindingIndexer :: "bindingIndex \<Rightarrow> error + apiBinding list" where
  "sampleBindingIndexer q =
    (case q of
       BindingsByWorkspace w \<Rightarrow> (if w = ''root:org:ws'' then Inr [pendingBinding, widgetsBinding] else Inr [])
     | ByIdentityGroupResource identity grp resource \<Rightarrow>
         (if identity = ''id1'' \<and> grp = ''example.io'' \<and> resource = ''widgets'' then Inr [widgetsBinding]
          else Inr []))"

definition sampleProvider :: "vcrd systemCRDProvider" where
  "sampleProvider = newSystemCRDProvider False False sampleWorkspaces sampleCRDLister"

definition sampleLister :: "vcrd lister" where
  "sampleLister =
    \<lparr>crdLister = sampleCRDLister, crdIndexer = sampleCRDIndexer,
     apiBindingIndexer = sampleBindingIndexer, systemCRDProvider = sampleProvider\<rparr>"

text \<open>Sample request contexts.\<close>

definition wsCtx :: ctx where
  "wsCtx = \<lparr>ctxCluster = Some ''root:org:ws'', ctxIdentity = '''', ctxAccept = StringValue ''''\<rparr>"

definition wildCtx :: ctx where
  "wildCtx = \<lparr>ctxCluster = Some ''*'', ctxIdentity = '''', ctxAccept = StringValue ''''\<rparr>"

definition noAcceptCtx :: ctx where
  "noAcceptCtx = \<lparr>ctxCluster = Some ''root:org:ws'', ctxIdentity = '''', ctxAccept = NoValue\<rparr>"

definition noClusterCtx :: ctx where
  "noClusterCtx = \<lparr>ctxCluster = None, ctxIdentity = '''', ctxAccept = NoValue\<rparr>"

text \<open>
  Two inputs of \<open>Refresh\<close>: the bound CRD as a wildcard partial-metadata \<open>Get\<close> hands it
  out, and a CRD decorated with an empty identity whose UID has the wildcard suffix
  although it carries no partial-metadata marker.
\<close>

definition projectedBoundCRD :: vcrd where
  "projectedBoundCRD =
     projectResult Wildcard True ''widgets.example.io''
       (decorateCRDWithBinding sampleLib boundWidgetsCRD ''id1'' None)"

definition staleCRD :: vcrd where
  "staleCRD = decorateCRDWithBinding sampleLib
      (boundWidgetsCRD\<lparr>crdUID := ''widgets.example.io.wildcard.partial-metadata''\<rparr>) '''' None"

text \<open>
  A store in which the shadow schema of the widgets carries an identity annotation of its
  own.
\<close>

definition relabelledCRD :: vcrd where
  "relabelledCRD = boundWidgetsCRD\<lparr>crdAnnotations := [AnnotationAPIIdentityKey \<mapsto> ''old'']\<rparr>"

definition relabelledLister :: "vcrd lister" where
  "relabelledLister =
    sampleLister\<lparr>crdLister :=
      (sampleCRDLister)(ToClusterAwareKey ShadowWorkspaceName ''u-widgets'' := Inr relabelledCRD)\<rparr>"

text \<open>
  A lister whose system provider has no keys, one whose provider names a system CRD that
  \<open>getCRD\<close> cannot fetch, and a context of a workspace whose local index fails.
\<close>

definition emptyProvider :: "vcrd systemCRDProvider" where
  "emptyProvider =
    \<lparr>commonCRDs = {}, rootCRDs = {}, orgCRDs = {}, universalCRDs = {},
     getClusterWorkspace = sampleWorkspaces, getCRD = sampleCRDLister\<rparr>"

definition plainLister :: "vcrd lister" where
  "plainLister = sampleLister\<lparr>systemCRDProvider := emptyProvider\<rparr>"

definition brokenSystemLister :: "vcrd lister" where
  "brokenSystemLister =
     sampleLister\<lparr>systemCRDProvider :=
        emptyProvider\<lparr>commonCRDs := {(''system:system-crds'', ''missing.kcp.dev'')}\<rparr>\<rparr>"

definition brokenCtx :: ctx where
  "brokenCtx = \<lparr>ctxCluster = Some ''root:org:broken'', ctxIdentity = '''', ctxAccept = StringValue ''''\<rparr>"

text \<open>
  A reconciler whose registry holds, for one sync target, a set with the definition 1;
  a sync-target lister that knows no sync target (the target was deleted); and a
  \<open>reconcile\<close> that does nothing.
\<close>

definition sampleReconciler :: reconciler where
  "sampleReconciler =
    \<lparr>apiSets = [(''root:org:ws|target'', [(''widgets.v1.example.io'', 1)])], tornDown = []\<rparr>"

definition noSyncTargets :: "string \<Rightarrow> error + syncTarget" where
  "noSyncTargets k = Inl NotFound"

definition idleReconcile :: "reconciler \<Rightarrow> string \<Rightarrow> syncTarget \<Rightarrow> error option \<times> reconciler" where
  "idleReconcile r k target = (None, r)"

text \<open>
  A sample heap: the local gadgets CRD at address 0, with an annotation, and the bound
  widgets CRD at address 1; a lister of pointers into it, with the sample bindings and no
  system CRDs; and the heap after \<open>touched\<close> is written into the annotations of the object
  at address 0.
\<close>

definition asStruct :: "vcrd \<Rightarrow> addr option \<Rightarrow> pcrd" where
  "asStruct v r =
    \<lparr>crdName = crdName v, crdClusterName = crdClusterName v, crdUID = crdUID v,
     crdLabels = crdLabels v, crdAnnotations = r, crdDeletionTimestamp = crdDeletionTimestamp v,
     crdSpec = crdSpec v, crdConditions = crdConditions v\<rparr>"

definition sampleHeap :: heap where
  "sampleHeap =
    \<lparr>crdObjects = (\<lambda>a. if a = 0 then asStruct localGadgetsCRD (Some 0) else asStruct boundWidgetsCRD (Some 1)),
     mapObjects = (\<lambda>a. if a = 0 then [''owner'' \<mapsto> ''team-a''] else Map.empty),
     nextCRD = 2, nextMap = 2\<rparr>"

definition noSystemCRDs :: "addr systemCRDProvider" where
  "noSystemCRDs =
    \<lparr>commonCRDs = {}, rootCRDs = {}, orgCRDs = {}, universalCRDs = {},
     getClusterWorkspace = sampleWorkspaces, getCRD = (\<lambda>k. Inl NotFound)\<rparr>"

definition samplePointerLister :: "addr lister" where
  "samplePointerLister =
    \<lparr>crdLister = (\<lambda>k. if k = (''root:org:ws'', ''gadgets.example.io'') then Inr 0
                       else if k = (''system:bound-crds'', ''u-widgets'') then Inr 1
                       else Inl NotFound),
     crdIndexer = (\<lambda>q. Inr []),
     apiBindingIndexer = sampleBindingIndexer,
     systemCRDProvider = noSystemCRDs\<rparr>"

definition touchedHeap :: heap where
  "touchedHeap =
    sampleHeap\<lparr>mapObjects := (mapObjects sampleHeap)(0 := (mapObjects sampleHeap 0)(''touched'' \<mapsto> ''yes''))\<rparr>"

definition touchedAnnotation :: "presult \<Rightarrow> string option" where
  "touchedAnnotation r =
    (case viewResult r of Returns (Inr v) \<Rightarrow> crdAnnotations v ''touched'' | _ \<Rightarrow> None)"

section \<open>Properties\<close>

subsection \<open>System CRD keys\<close>

text \<open>
  C6. \<open>Keys(cluster)\<close> is \<open>root \<union> common\<close> at the root cluster. For another cluster that has
  the root cluster as a prefix it is \<open>universal \<union> common\<close> when the workspace's type is
  Universal, \<open>org \<union> common\<close> when it is Organization or Team, and empty for any other
  type and when the workspace lookup fails (not-found or any other error). It is empty
  for every cluster that is neither the root nor has the root as a prefix.
\<close>

theorem Keys_cases:
  fixes p :: "'c systemCRDProvider"
  shows "(clusterName = RootCluster \<longrightarrow> Keys L p clusterName = rootCRDs p \<union> commonCRDs p)
    \<and> (clusterName \<noteq> RootCluster \<and> HasPrefix L clusterName RootCluster \<longrightarrow>
         (\<forall>parent ws. Split L clusterName = (parent, ws) \<longrightarrow>
           (\<forall>cw. getClusterWorkspace p (ToClusterAwareKey parent ws) = Inr cw \<longrightarrow>
              (workspaceTypeName cw = ''Universal'' \<longrightarrow>
                 Keys L p clusterName = universalCRDs p \<union> commonCRDs p)
            \<and> (workspaceTypeName cw = ''Organization'' \<or> workspaceTypeName cw = ''Team'' \<longrightarrow>
                 Keys L p clusterName = orgCRDs p \<union> commonCRDs p)
            \<and> (workspaceTypeName cw \<notin> {''Universal'', ''Organization'', ''Team''} \<longrightarrow>
                 Keys L p clusterName = {}))
         \<and> (\<forall>err. getClusterWorkspace p (ToClusterAwareKey parent ws) = Inl err \<longrightarrow>
                 Keys L p clusterName = {})))
    \<and> (clusterName \<noteq> RootCluster \<and> \<not> HasPrefix L clusterName RootCluster \<longrightarrow>
         Keys L p clusterName = {})"
  by (auto simp: Keys_def)

theorem Keys_cases_witness:
  "Keys sampleLib sampleProvider ''root'' = rootCRDs sampleProvider \<union> commonCRDs sampleProvider
  \<and> Keys sampleLib sampleProvider ''root:org:ws'' = universalCRDs sampleProvider \<union> commonCRDs sampleProvider
  \<and> Keys sampleLib sampleProvider ''root:org'' = orgCRDs sampleProvider \<union> commonCRDs sampleProvider
  \<and> Keys sampleLib sampleProvider ''root:org:team'' = orgCRDs sampleProvider \<union> commonCRDs sampleProvider
  \<and> Keys sampleLib sampleProvider ''root:org:custom'' = {}
  \<and> Keys sampleLib sampleProvider ''root:org:broken'' = {}
  \<and> Keys sampleLib sampleProvider ''root:org:gone'' = {}
  \<and> Keys sampleLib sampleProvider ''system:admin'' = {}"
  using Keys_cases[of "''root''" sampleLib sampleProvider]
    Keys_cases[of "''root:org:ws''" sampleLib sampleProvider]
    Keys_cases[of "''root:org''" sampleLib sampleProvider]
    Keys_cases[of "''root:org:team''" sampleLib sampleProvider]
    Keys_cases[of "''root:org:custom''" sampleLib sampleProvider]
    Keys_cases[of "''root:org:broken''" sampleLib sampleProvider]
    Keys_cases[of "''root:org:gone''" sampleLib sampleProvider]
    Keys_cases[of "''system:admin''" sampleLib sampleProvider]
  by (simp add: RootCluster_def sampleLib_def sampleSplit_def sampleProvider_def newSystemCRDProvider_def
       sampleWorkspaces_def ToClusterAwareKey_def)

subsection \<open>Auxiliary facts\<close>

lemma FindCRDCondition_replicate_zero:
  "t \<noteq> '''' \<Longrightarrow>
     FindCRDCondition (replicate n zeroCondition @ cs) t = map_option (\<lambda>i. n + i) (FindCRDCondition cs t)"
  by (induction n) (cases "FindCRDCondition cs t"; simp add: zeroCondition_def)+

lemma decorate_annotation:
  "crdAnnotations (decorateCRDWithBinding L S identity t) AnnotationAPIIdentityKey = Some identity"
  by (simp add: decorateCRDWithBinding_def decorateTerminating_def SetCRDCondition_def
      shallowCopyCRDAndDeepCopyAnnotations_def Let_def split: option.splits)

lemma decorate_deletionTimestamp:
  "\<not> IsZero t \<Longrightarrow> crdDeletionTimestamp (decorateCRDWithBinding L S identity t) = t"
  by (simp add: decorateCRDWithBinding_def decorateTerminating_def SetCRDCondition_def
      shallowCopyCRDAndDeepCopyAnnotations_def Let_def split: option.splits)

text \<open>
  With a non-zero deletion timestamp, and no Terminating condition yet, the conditions of
  the decorated CRD are as many zero values as the input has conditions, then the
  input's conditions, then the Terminating condition.
\<close>

lemma decorate_conditions:
  assumes "\<not> IsZero t" and "FindCRDCondition (crdConditions S) ''Terminating'' = None"
  shows "crdConditions (decorateCRDWithBinding L S identity t) =
     replicate (length (crdConditions S)) zeroCondition @ crdConditions S
       @ [terminatingCondition\<lparr>lastTransitionTime := Now L\<rparr>]"
  using assms
  by (simp add: decorateCRDWithBinding_def decorateTerminating_def SetCRDCondition_def
      shallowCopyCRDAndDeepCopyAnnotations_def Let_def FindCRDCondition_replicate_zero
      terminatingCondition_def)

lemma fullDataLoop_Some:
  "fullDataLoop specOf (Some f) objs =
     (if list_all (\<lambda>c. specOf c = specOf f) objs then Inr (Some f) else Inl InternalError)"
  by (induction objs) auto

lemma all_equal_hd:
  "objs \<noteq> [] \<Longrightarrow>
     (\<forall>a\<in>set objs. \<forall>b\<in>set objs. f a = f b) \<longleftrightarrow> list_all (\<lambda>c. f c = f (hd objs)) (tl objs)"
  by (cases objs) (auto simp: list_all_iff)

lemma getForFullDataWildcardOf_cases:
  assumes "crdIndexer c (ByGroupResourceName name) = Inr objs"
  shows "getForFullDataWildcardOf specOf c name =
      (if objs = [] then Inl NotFound
       else if (\<forall>a\<in>set objs. \<forall>b\<in>set objs. specOf a = specOf b) then Inr (hd objs)
       else Inl InternalError)"
proof (cases objs)
  case Nil
  with assms show ?thesis
    by (simp add: getForFullDataWildcardOf_def)
next
  case (Cons f rest)
  then have ne: "objs \<noteq> []" by simp
  show ?thesis
    using assms Cons all_equal_hd[OF ne, of specOf]
    by (simp add: getForFullDataWildcardOf_def fullDataLoop_Some)
qed

text \<open>\<open>Get\<close> once the context has a cluster name, by the outcome of the system lookup.\<close>

lemma Get_unfold:
  assumes "ctxCluster cx = Some clusterName"
  shows "Get L c cx name =
    (case getSystemCRD L c clusterName name of
       Inr crd \<Rightarrow>
         (case isPartialMetadataRequest L cx of
            Panics \<Rightarrow> Panics
          | Returns pm \<Rightarrow> Returns (Inr (projectResult clusterName pm name crd)))
     | Inl err \<Rightarrow>
         if \<not> IsNotFound err then Returns (Inl err)
         else (case isPartialMetadataRequest L cx of
                 Panics \<Rightarrow> Panics
               | Returns pm \<Rightarrow>
                   (case resolveNonSystem L c cx clusterName pm name of
                      Inl e \<Rightarrow> Returns (Inl e)
                    | Inr crd \<Rightarrow> Returns (Inr (projectResult clusterName pm name crd)))))"
  using assms
  by (simp add: Get_def ClusterNameFrom_def Let_def split: sum.splits outcome.splits)

lemma firstBoundResource_Some:
  "firstBoundResource grp resource brs = Some br \<Longrightarrow>
     br \<in> set brs \<and> brGroup br = grp \<and> brResource br = resource"
  by (induction brs) (auto split: if_splits)

lemma firstBoundResource_None:
  "firstBoundResource grp resource brs = None \<longleftrightarrow>
     \<not> list_ex (\<lambda>br. brGroup br = grp \<and> brResource br = resource) brs"
  by (induction brs) auto

lemma firstBinding_Some:
  "firstBinding grp resource bs = Some (b, br) \<Longrightarrow>
     b \<in> set bs \<and> IsTrue b InitialBindingCompleted \<and> br \<in> set (boundResources b)
       \<and> brGroup br = grp \<and> brResource br = resource"
  by (induction bs) (auto split: if_splits option.splits dest: firstBoundResource_Some)

lemma firstBinding_None:
  "firstBinding grp resource bs = None \<longleftrightarrow>
     \<not> list_ex (\<lambda>b. IsTrue b InitialBindingCompleted
                   \<and> list_ex (\<lambda>br. brGroup br = grp \<and> brResource br = resource) (boundResources b)) bs"
proof (induction bs)
  case Nil
  show ?case by simp
next
  case (Cons b bs)
  show ?case
    using Cons firstBoundResource_None[of grp resource "boundResources b"]
    by (cases "firstBoundResource grp resource (boundResources b)") auto
qed

lemma get_unfold:
  assumes "crdNameToGroupResource name = (grp, resource)"
    and "apiBindingIndexer c (BindingsByWorkspace clusterName) = Inr objs"
  shows "get L c clusterName name =
    (case firstBinding grp resource objs of
       Some (b, br) \<Rightarrow>
         (case crdLister c (ToClusterAwareKey ShadowWorkspaceName (brSchemaUID br)) of
            Inl err \<Rightarrow> if IsNotFound err then Inl ServiceUnavailable else Inl err
          | Inr crd \<Rightarrow> Inr (decorateCRDWithBinding L crd (brIdentityHash br) (bindingDeletionTimestamp b)))
     | None \<Rightarrow>
         (case crdLister c (ToClusterAwareKey clusterName name) of
            Inl err \<Rightarrow> if IsNotFound err then Inl NotFound else Inl err
          | Inr crd \<Rightarrow> Inr crd))"
  using assms by (simp add: get_def split: option.splits sum.splits)

lemma resolveNonSystem_normal:
  "clusterName \<noteq> Wildcard \<Longrightarrow> ctxIdentity cx = '''' \<Longrightarrow>
    resolveNonSystem L c cx clusterName pm name = get L c clusterName name"
  by (simp add: resolveNonSystem_def IdentityFromContext_def)

lemma keys_distinct: "AnnotationAPIIdentityKey \<noteq> annotationKeyPartialMetadata"
  by (simp add: AnnotationAPIIdentityKey_def annotationKeyPartialMetadata_def)

text \<open>Facts of the sample environment.\<close>

lemma sample_keys_ws:
  "Keys sampleLib sampleProvider ''root:org:ws'' = universalCRDs sampleProvider \<union> commonCRDs sampleProvider"
  by (simp add: Keys_def RootCluster_def sampleLib_def sampleSplit_def sampleProvider_def
       newSystemCRDProvider_def sampleWorkspaces_def ToClusterAwareKey_def)

lemma sample_keys_ws_set:
  "Keys sampleLib sampleProvider ''root:org:ws'' =
    {(''system:system-crds'', ''clusterworkspaces.tenancy.kcp.dev''),
     (''system:system-crds'', ''clusterworkspacetypes.tenancy.kcp.dev''),
     (''system:system-crds'', ''clusterworkspaceshards.tenancy.kcp.dev''),
     (''system:system-crds'', ''workspaces.tenancy.kcp.dev''),
     (''system:system-crds'', ''apiresourceimports.apiresource.kcp.dev''),
     (''system:system-crds'', ''negotiatedapiresources.apiresource.kcp.dev''),
     (''system:system-crds'', ''workloadclusters.workload.kcp.dev''),
     (''system:system-crds'', ''apiexports.apis.kcp.dev''),
     (''system:system-crds'', ''apibindings.apis.kcp.dev''),
     (''system:system-crds'', ''apiresourceschemas.apis.kcp.dev'')}"
  by (subst sample_keys_ws)
     (simp add: sampleProvider_def newSystemCRDProvider_def ToClusterAwareKey_def SystemCRDLogicalCluster_def)

lemma sample_sys_miss:
  "(''system:system-crds'', name) \<notin> Keys sampleLib sampleProvider ''root:org:ws'' \<Longrightarrow>
   getSystemCRD sampleLib sampleLister ''root:org:ws'' name = Inl NotFound"
  by (simp add: getSystemCRD_def Wildcard_def sampleLister_def ToClusterAwareKey_def SystemCRDLogicalCluster_def)

lemma sample_sys_miss_widgets:
  "getSystemCRD sampleLib sampleLister ''root:org:ws'' ''widgets.example.io'' = Inl NotFound"
  by (rule sample_sys_miss) (simp add: sample_keys_ws_set)

lemma wildCtx_pm: "isPartialMetadataRequest sampleLib wildCtx = Returns False"
  by (simp add: isPartialMetadataRequest_def wildCtx_def)

lemma wsCtx_pm: "isPartialMetadataRequest sampleLib wsCtx = Returns False"
  by (simp add: isPartialMetadataRequest_def wsCtx_def)

lemma sample_bindings_ws:
  "apiBindingIndexer sampleLister (BindingsByWorkspace ''root:org:ws'') = Inr [pendingBinding, widgetsBinding]"
  by (simp add: sampleLister_def sampleBindingIndexer_def)

lemma sample_firstBinding_widgets:
  "firstBinding ''example.io'' ''widgets'' [pendingBinding, widgetsBinding]
      = Some (widgetsBinding, \<lparr>brGroup = ''example.io'', brResource = ''widgets'', brSchemaUID = ''u-widgets'',
                        brIdentityHash = ''id1''\<rparr>)"
  by (simp add: pendingBinding_def widgetsBinding_def IsTrue_def InitialBindingCompleted_def)

lemma projectedBoundCRD_fields:
  "crdName projectedBoundCRD = ''u-widgets''" "crdClusterName projectedBoundCRD = ''system:bound-crds''"
  "crdUID projectedBoundCRD = ''widgets.example.io.wildcard.partial-metadata''"
  "crdAnnotations projectedBoundCRD AnnotationAPIIdentityKey = Some ''id1''"
  "crdAnnotations projectedBoundCRD annotationKeyPartialMetadata = Some ''''"
  by (simp_all add: projectedBoundCRD_def projectResult_def decorateCRDWithBinding_def
      shallowCopyCRDAndDeepCopyAnnotations_def makePartialMetadataCRD_def minimalVersions_def
      boundWidgetsCRD_def sampleCRD_def Let_def keys_distinct)

subsection \<open>Binding decoration\<close>

text \<open>
  C3. Binding decoration sets the identity annotation, and with a non-zero deletion
  timestamp it should append a Terminating=True condition after the existing
  conditions and nothing else. On the bound widgets CRD, which has the single condition
  Established, decorated with identity \<open>id1\<close> and deletion timestamp 42, the code yields
  three conditions: a zero-valued condition comes first, from
  \<open>make([]Condition, len(...))\<close> followed by \<open>append\<close>. The identity annotation and the
  deletion timestamp are as claimed.
\<close>

theorem decorate_prepends_zero_conditions:
  "crdConditions (decorateCRDWithBinding sampleLib boundWidgetsCRD ''id1'' (Some 42)) =
     [zeroCondition, establishedCondition, terminatingCondition\<lparr>lastTransitionTime := 100\<rparr>]
   \<and> crdConditions boundWidgetsCRD = [establishedCondition]
   \<and> crdAnnotations (decorateCRDWithBinding sampleLib boundWidgetsCRD ''id1'' (Some 42))
        ''apis.kcp.dev/identity'' = Some ''id1''
   \<and> crdDeletionTimestamp (decorateCRDWithBinding sampleLib boundWidgetsCRD ''id1'' (Some 42)) = Some 42"
  by (simp add: decorateCRDWithBinding_def decorateTerminating_def SetCRDCondition_def
      shallowCopyCRDAndDeepCopyAnnotations_def Let_def boundWidgetsCRD_def sampleCRD_def sampleLib_def
      terminatingCondition_def zeroCondition_def establishedCondition_def AnnotationAPIIdentityKey_def)

subsection \<open>Wildcard full-data requests\<close>

text \<open>
  C4. When the by-group-resource-name index answers with the schemas \<open>objs\<close> of the name,
  \<open>getForFullDataWildcard\<close> is not-found if there is none, the first of them if all their
  specs are equal, and an internal error otherwise. \<open>Get\<close> returns exactly this for a
  wildcard cluster, an empty identity and a request that is not partial metadata, once
  the system workspace has no schema of the name.
\<close>

theorem wildcard_full_data_cases:
  assumes idx: "crdIndexer c (ByGroupResourceName name) = Inr objs"
  shows "getForFullDataWildcard c name =
      (if objs = [] then Inl NotFound
       else if (\<forall>a\<in>set objs. \<forall>b\<in>set objs. crdSpec a = crdSpec b) then Inr (hd objs)
       else Inl InternalError)
    \<and> (ctxCluster cx = Some Wildcard \<and> ctxIdentity cx = ''''
        \<and> isPartialMetadataRequest L cx = Returns False
        \<and> crdLister c (ToClusterAwareKey SystemCRDLogicalCluster name) = Inl NotFound
       \<longrightarrow> Get L c cx name = Returns (getForFullDataWildcard c name))"
proof -
  have "ctxCluster cx = Some Wildcard \<Longrightarrow> ctxIdentity cx = '''' \<Longrightarrow>
        isPartialMetadataRequest L cx = Returns False \<Longrightarrow>
        crdLister c (ToClusterAwareKey SystemCRDLogicalCluster name) = Inl NotFound \<Longrightarrow>
        Get L c cx name = Returns (getForFullDataWildcard c name)"
    by (simp add: Get_unfold getSystemCRD_def resolveNonSystem_def IdentityFromContext_def
        projectResult_def split: sum.splits)
  then show ?thesis
    using getForFullDataWildcardOf_cases[OF idx, of crdSpec]
    by (simp add: getForFullDataWildcard_def)
qed

theorem wildcard_full_data_cases_witness:
  "Get sampleLib sampleLister wildCtx ''gadgets.example.io'' = Returns (Inr localGadgetsCRD)
   \<and> Get sampleLib sampleLister wildCtx ''widgets.example.io'' = Returns (Inl InternalError)
   \<and> Get sampleLib sampleLister wildCtx ''gizmos.example.io'' = Returns (Inl NotFound)"
proof -
  have i1: "crdIndexer sampleLister (ByGroupResourceName ''gadgets.example.io'')
              = Inr [localGadgetsCRD, otherGadgetsCRD]"
    and i2: "crdIndexer sampleLister (ByGroupResourceName ''widgets.example.io'')
              = Inr [localWidgetsCRD, otherWidgetsCRD]"
    and i3: "crdIndexer sampleLister (ByGroupResourceName ''gizmos.example.io'') = Inr []"
    by (simp_all add: sampleLister_def sampleCRDIndexer_def)
  have s: "crdLister sampleLister (ToClusterAwareKey SystemCRDLogicalCluster ''gadgets.example.io'') = Inl NotFound"
    "crdLister sampleLister (ToClusterAwareKey SystemCRDLogicalCluster ''widgets.example.io'') = Inl NotFound"
    "crdLister sampleLister (ToClusterAwareKey SystemCRDLogicalCluster ''gizmos.example.io'') = Inl NotFound"
    by (simp_all add: sampleLister_def sampleCRDLister_def ToClusterAwareKey_def SystemCRDLogicalCluster_def)
  have c: "ctxCluster wildCtx = Some Wildcard" "ctxIdentity wildCtx = ''''"
    by (simp_all add: wildCtx_def Wildcard_def)
  have e: "crdSpec localGadgetsCRD = crdSpec otherGadgetsCRD"
    "crdSpec localWidgetsCRD \<noteq> crdSpec otherWidgetsCRD"
    by (simp_all add: localGadgetsCRD_def otherGadgetsCRD_def localWidgetsCRD_def otherWidgetsCRD_def
        sampleCRD_def)
  from wildcard_full_data_cases[OF i1, of wildCtx sampleLib]
       wildcard_full_data_cases[OF i2, of wildCtx sampleLib]
       wildcard_full_data_cases[OF i3, of wildCtx sampleLib] s c e wildCtx_pm
  show ?thesis by simp
qed

subsection \<open>The single-cluster path\<close>

text \<open>
  C8. On the normal single-cluster path (a cluster that is not the wildcard, no
  identity, no system schema of the name), let \<open>firstBinding\<close> be what the walk over the
  completed bindings of the cluster finds first: a bound resource that matches the
  group and the resource. If its shadow schema, keyed by its schema UID, is not found,
  \<open>get\<close> and \<open>Get\<close> return service-unavailable. If no completed binding declares a
  matching bound resource, \<open>get\<close> falls back to the local schema of the cluster and the
  name and returns it, or not-found when the store has none (any other store error is
  passed on). In particular, when some completed binding declares a matching bound
  resource and the shadow schema of every such bound resource is missing, \<open>Get\<close> returns
  service-unavailable. \<open>Get\<close> returns what \<open>get\<close> returns, projected when the request is
  partial metadata.
\<close>

theorem get_binding_or_local:
  assumes grp: "crdNameToGroupResource name = (grp, resource)"
    and idx: "apiBindingIndexer c (BindingsByWorkspace clusterName) = Inr objs"
    and cl: "ctxCluster cx = Some clusterName" "clusterName \<noteq> Wildcard"
    and ident: "ctxIdentity cx = ''''"
    and pm: "isPartialMetadataRequest L cx = Returns pm"
    and sys: "getSystemCRD L c clusterName name = Inl NotFound"
  shows "(\<forall>b br. firstBinding grp resource objs = Some (b, br)
            \<and> crdLister c (ToClusterAwareKey ShadowWorkspaceName (brSchemaUID br)) = Inl NotFound
          \<longrightarrow> get L c clusterName name = Inl ServiceUnavailable
            \<and> Get L c cx name = Returns (Inl ServiceUnavailable))
    \<and> (firstBinding grp resource objs = None \<longrightarrow>
          (\<forall>crd. crdLister c (ToClusterAwareKey clusterName name) = Inr crd \<longrightarrow>
             get L c clusterName name = Inr crd)
        \<and> (\<forall>err. crdLister c (ToClusterAwareKey clusterName name) = Inl err \<longrightarrow>
             get L c clusterName name = (if IsNotFound err then Inl NotFound else Inl err)
           \<and> Get L c cx name = Returns (if IsNotFound err then Inl NotFound else Inl err)))
    \<and> (firstBinding grp resource objs = None \<longleftrightarrow>
          \<not> list_ex (\<lambda>b. IsTrue b InitialBindingCompleted
                   \<and> list_ex (\<lambda>br. brGroup br = grp \<and> brResource br = resource) (boundResources b)) objs)
    \<and> (list_ex (\<lambda>b. IsTrue b InitialBindingCompleted
                   \<and> list_ex (\<lambda>br. brGroup br = grp \<and> brResource br = resource) (boundResources b)) objs
          \<and> (\<forall>b\<in>set objs. \<forall>br\<in>set (boundResources b).
                IsTrue b InitialBindingCompleted \<and> brGroup br = grp \<and> brResource br = resource
                \<longrightarrow> crdLister c (ToClusterAwareKey ShadowWorkspaceName (brSchemaUID br)) = Inl NotFound)
          \<longrightarrow> Get L c cx name = Returns (Inl ServiceUnavailable))
    \<and> Get L c cx name =
         Returns (case get L c clusterName name of
                    Inl err \<Rightarrow> Inl err
                  | Inr crd \<Rightarrow> Inr (projectResult clusterName pm name crd))"
proof -
  have G: "Get L c cx name =
      Returns (case get L c clusterName name of
                 Inl err \<Rightarrow> Inl err
               | Inr crd \<Rightarrow> Inr (projectResult clusterName pm name crd))"
    using cl ident sys pm
    by (simp add: Get_unfold[OF cl(1)] resolveNonSystem_normal split: sum.splits)
  have g: "get L c clusterName name =
    (case firstBinding grp resource objs of
       Some (b, br) \<Rightarrow>
         (case crdLister c (ToClusterAwareKey ShadowWorkspaceName (brSchemaUID br)) of
            Inl err \<Rightarrow> if IsNotFound err then Inl ServiceUnavailable else Inl err
          | Inr crd \<Rightarrow> Inr (decorateCRDWithBinding L crd (brIdentityHash br) (bindingDeletionTimestamp b)))
     | None \<Rightarrow>
         (case crdLister c (ToClusterAwareKey clusterName name) of
            Inl err \<Rightarrow> if IsNotFound err then Inl NotFound else Inl err
          | Inr crd \<Rightarrow> Inr crd))"
    by (rule get_unfold[OF grp idx])
  have 1: "\<forall>b br. firstBinding grp resource objs = Some (b, br)
            \<and> crdLister c (ToClusterAwareKey ShadowWorkspaceName (brSchemaUID br)) = Inl NotFound
          \<longrightarrow> get L c clusterName name = Inl ServiceUnavailable
            \<and> Get L c cx name = Returns (Inl ServiceUnavailable)"
    by (simp add: G g)
  have 2: "firstBinding grp resource objs = None \<longrightarrow>
          (\<forall>crd. crdLister c (ToClusterAwareKey clusterName name) = Inr crd \<longrightarrow>
             get L c clusterName name = Inr crd)
        \<and> (\<forall>err. crdLister c (ToClusterAwareKey clusterName name) = Inl err \<longrightarrow>
             get L c clusterName name = (if IsNotFound err then Inl NotFound else Inl err)
           \<and> Get L c cx name = Returns (if IsNotFound err then Inl NotFound else Inl err))"
    by (simp add: G g)
  have 3: "list_ex (\<lambda>b. IsTrue b InitialBindingCompleted
                   \<and> list_ex (\<lambda>br. brGroup br = grp \<and> brResource br = resource) (boundResources b)) objs
          \<and> (\<forall>b\<in>set objs. \<forall>br\<in>set (boundResources b).
                IsTrue b InitialBindingCompleted \<and> brGroup br = grp \<and> brResource br = resource
                \<longrightarrow> crdLister c (ToClusterAwareKey ShadowWorkspaceName (brSchemaUID br)) = Inl NotFound)
          \<longrightarrow> Get L c cx name = Returns (Inl ServiceUnavailable)"
  proof (intro impI, elim conjE)
    assume ex: "list_ex (\<lambda>b. IsTrue b InitialBindingCompleted
                   \<and> list_ex (\<lambda>br. brGroup br = grp \<and> brResource br = resource) (boundResources b)) objs"
      and all: "\<forall>b\<in>set objs. \<forall>br\<in>set (boundResources b).
                IsTrue b InitialBindingCompleted \<and> brGroup br = grp \<and> brResource br = resource
                \<longrightarrow> crdLister c (ToClusterAwareKey ShadowWorkspaceName (brSchemaUID br)) = Inl NotFound"
    from ex obtain b br where f: "firstBinding grp resource objs = Some (b, br)"
      using firstBinding_None[of grp resource objs] by (cases "firstBinding grp resource objs") auto
    from firstBinding_Some[OF f] all
    have "crdLister c (ToClusterAwareKey ShadowWorkspaceName (brSchemaUID br)) = Inl NotFound"
      by blast
    with f 1 show "Get L c cx name = Returns (Inl ServiceUnavailable)"
      by blast
  qed
  have 4: "firstBinding grp resource objs = None \<longleftrightarrow>
          \<not> list_ex (\<lambda>b. IsTrue b InitialBindingCompleted
                   \<and> list_ex (\<lambda>br. brGroup br = grp \<and> brResource br = resource) (boundResources b)) objs"
    by (rule firstBinding_None)
  show ?thesis
    by (intro conjI 1 2 3 4 G)
qed

theorem get_binding_or_local_witness:
  "Get sampleLib sampleLister wsCtx ''gizmos.example.io'' = Returns (Inl ServiceUnavailable)
   \<and> Get sampleLib sampleLister wsCtx ''gadgets.example.io'' = Returns (Inr localGadgetsCRD)
   \<and> Get sampleLib sampleLister wsCtx ''doodads.example.io'' = Returns (Inl NotFound)"
proof -
  have g: "crdNameToGroupResource ''gizmos.example.io'' = (''example.io'', ''gizmos'')"
    "crdNameToGroupResource ''gadgets.example.io'' = (''example.io'', ''gadgets'')"
    "crdNameToGroupResource ''doodads.example.io'' = (''example.io'', ''doodads'')"
    by (simp_all add: crdNameToGroupResource_def)
  have s: "getSystemCRD sampleLib sampleLister ''root:org:ws'' ''gizmos.example.io'' = Inl NotFound"
    "getSystemCRD sampleLib sampleLister ''root:org:ws'' ''gadgets.example.io'' = Inl NotFound"
    "getSystemCRD sampleLib sampleLister ''root:org:ws'' ''doodads.example.io'' = Inl NotFound"
    by (rule sample_sys_miss, simp add: sample_keys_ws_set)+
  have f: "firstBinding ''example.io'' ''gizmos'' [pendingBinding, widgetsBinding]
      = Some (widgetsBinding, \<lparr>brGroup = ''example.io'', brResource = ''gizmos'', brSchemaUID = ''u-gizmos'',
                        brIdentityHash = ''id1''\<rparr>)"
    "firstBinding ''example.io'' ''gadgets'' [pendingBinding, widgetsBinding] = None"
    "firstBinding ''example.io'' ''doodads'' [pendingBinding, widgetsBinding] = None"
    by (simp_all add: pendingBinding_def widgetsBinding_def IsTrue_def InitialBindingCompleted_def)
  have l: "crdLister sampleLister (ToClusterAwareKey ShadowWorkspaceName ''u-gizmos'') = Inl NotFound"
    "crdLister sampleLister (ToClusterAwareKey ''root:org:ws'' ''gadgets.example.io'') = Inr localGadgetsCRD"
    "crdLister sampleLister (ToClusterAwareKey ''root:org:ws'' ''doodads.example.io'') = Inl NotFound"
    by (simp_all add: sampleLister_def sampleCRDLister_def ToClusterAwareKey_def ShadowWorkspaceName_def)
  have c: "ctxCluster wsCtx = Some ''root:org:ws''" "''root:org:ws'' \<noteq> Wildcard" "ctxIdentity wsCtx = ''''"
    by (simp_all add: wsCtx_def Wildcard_def)
  from get_binding_or_local[OF g(1) sample_bindings_ws c wsCtx_pm s(1)]
       get_binding_or_local[OF g(2) sample_bindings_ws c wsCtx_pm s(2)]
       get_binding_or_local[OF g(3) sample_bindings_ws c wsCtx_pm s(3)] f l
  show ?thesis by (simp add: projectResult_def)
qed

subsection \<open>The priority chain of Get\<close>

text \<open>
  C1. \<open>Get\<close> returns one result: an error or a single schema. For every context that
  carries a cluster name: a schema found by the system lookup is the one returned
  (projected for a partial-metadata request), whatever the identity of the context, the
  bindings, the index and the local store hold; the system lookup of a cluster that is not
  the wildcard consults the store only for a key of \<open>Keys\<close>; and on the single-cluster
  path the shadow schema of the first matching bound resource of a completed binding is
  returned, decorated, whatever the local store holds under the name.
\<close>

theorem Get_priority:
  assumes cl: "ctxCluster cx = Some clusterName"
  shows "(\<forall>crd. getSystemCRD L c clusterName name = Inr crd \<longrightarrow>
            Get L c cx name =
              (case isPartialMetadataRequest L cx of
                 Panics \<Rightarrow> Panics
               | Returns pm \<Rightarrow> Returns (Inr (projectResult clusterName pm name crd))))
    \<and> getSystemCRD L c clusterName name =
         (if clusterName \<noteq> Wildcard
             \<and> ToClusterAwareKey SystemCRDLogicalCluster name \<notin> Keys L (systemCRDProvider c) clusterName
          then Inl NotFound
          else crdLister c (ToClusterAwareKey SystemCRDLogicalCluster name))
    \<and> (\<forall>grp resource objs b br crd.
          getSystemCRD L c clusterName name = Inl NotFound
          \<and> clusterName \<noteq> Wildcard \<and> ctxIdentity cx = ''''
          \<and> crdNameToGroupResource name = (grp, resource)
          \<and> apiBindingIndexer c (BindingsByWorkspace clusterName) = Inr objs
          \<and> firstBinding grp resource objs = Some (b, br)
          \<and> crdLister c (ToClusterAwareKey ShadowWorkspaceName (brSchemaUID br)) = Inr crd
          \<longrightarrow> Get L c cx name =
              (case isPartialMetadataRequest L cx of
                 Panics \<Rightarrow> Panics
               | Returns pm \<Rightarrow>
                   Returns (Inr (projectResult clusterName pm name
                     (decorateCRDWithBinding L crd (brIdentityHash br) (bindingDeletionTimestamp b))))))
    \<and> (\<forall>r. Get L c cx name = Returns r \<longrightarrow> (\<exists>err. r = Inl err) \<or> (\<exists>crd. r = Inr crd))"
proof -
  have 1: "\<forall>crd. getSystemCRD L c clusterName name = Inr crd \<longrightarrow>
            Get L c cx name =
              (case isPartialMetadataRequest L cx of
                 Panics \<Rightarrow> Panics
               | Returns pm \<Rightarrow> Returns (Inr (projectResult clusterName pm name crd)))"
    by (simp add: Get_unfold[OF cl])
  have 2: "getSystemCRD L c clusterName name =
         (if clusterName \<noteq> Wildcard
             \<and> ToClusterAwareKey SystemCRDLogicalCluster name \<notin> Keys L (systemCRDProvider c) clusterName
          then Inl NotFound
          else crdLister c (ToClusterAwareKey SystemCRDLogicalCluster name))"
    by (simp add: getSystemCRD_def)
  have 3: "\<forall>grp resource objs b br crd.
          getSystemCRD L c clusterName name = Inl NotFound
          \<and> clusterName \<noteq> Wildcard \<and> ctxIdentity cx = ''''
          \<and> crdNameToGroupResource name = (grp, resource)
          \<and> apiBindingIndexer c (BindingsByWorkspace clusterName) = Inr objs
          \<and> firstBinding grp resource objs = Some (b, br)
          \<and> crdLister c (ToClusterAwareKey ShadowWorkspaceName (brSchemaUID br)) = Inr crd
          \<longrightarrow> Get L c cx name =
              (case isPartialMetadataRequest L cx of
                 Panics \<Rightarrow> Panics
               | Returns pm \<Rightarrow>
                   Returns (Inr (projectResult clusterName pm name
                     (decorateCRDWithBinding L crd (brIdentityHash br) (bindingDeletionTimestamp b)))))"
    by (auto simp: Get_unfold[OF cl] resolveNonSystem_normal get_unfold split: outcome.splits)
  have 4: "\<forall>r. Get L c cx name = Returns r \<longrightarrow> (\<exists>err. r = Inl err) \<or> (\<exists>crd. r = Inr crd)"
    by (metis sum.exhaust)
  show ?thesis using 1 2 3 4 by blast
qed

theorem Get_priority_witness:
  "Get sampleLib sampleLister wsCtx ''workspaces.tenancy.kcp.dev'' = Returns (Inr systemWorkspacesCRD)
   \<and> Get sampleLib sampleLister wsCtx ''widgets.example.io'' =
       Returns (Inr (decorateCRDWithBinding sampleLib boundWidgetsCRD ''id1'' (Some 42)))
   \<and> crdLister sampleLister (''root:org:ws'', ''widgets.example.io'') = Inr localWidgetsCRD"
proof -
  have c: "ctxCluster wsCtx = Some ''root:org:ws''" "ctxIdentity wsCtx = ''''" "''root:org:ws'' \<noteq> Wildcard"
    by (simp_all add: wsCtx_def Wildcard_def)
  have s1: "getSystemCRD sampleLib sampleLister ''root:org:ws'' ''workspaces.tenancy.kcp.dev''
              = Inr systemWorkspacesCRD"
    by (simp add: getSystemCRD_def Wildcard_def sampleLister_def ToClusterAwareKey_def
        SystemCRDLogicalCluster_def sample_keys_ws_set sampleCRDLister_def)
  have g: "crdNameToGroupResource ''widgets.example.io'' = (''example.io'', ''widgets'')"
    by (simp add: crdNameToGroupResource_def)
  have l: "crdLister sampleLister (ToClusterAwareKey ShadowWorkspaceName ''u-widgets'') = Inr boundWidgetsCRD"
    "crdLister sampleLister (''root:org:ws'', ''widgets.example.io'') = Inr localWidgetsCRD"
    by (simp_all add: sampleLister_def sampleCRDLister_def ToClusterAwareKey_def ShadowWorkspaceName_def)
  have t: "bindingDeletionTimestamp widgetsBinding = Some 42"
    by (simp add: widgetsBinding_def)
  from Get_priority[OF c(1), of sampleLib sampleLister "''workspaces.tenancy.kcp.dev''"]
       Get_priority[OF c(1), of sampleLib sampleLister "''widgets.example.io''"]
       s1 sample_sys_miss_widgets g sample_bindings_ws sample_firstBinding_widgets l t c wsCtx_pm
  show ?thesis by (simp add: projectResult_def)
qed

subsection \<open>The accept header of the context\<close>

text \<open>
  C10, as stated, fails: a context that holds no value under the accept-header key and
  no cluster name makes \<open>Get\<close> return the error of \<open>ClusterNameFrom\<close>; it does not panic.
\<close>

theorem Get_missing_cluster_counterexample:
  "Get sampleLib sampleLister noClusterCtx ''widgets.example.io'' = Returns (Inl MissingCluster)
   \<and> ctxAccept noClusterCtx = NoValue"
  by (simp add: Get_def ClusterNameFrom_def noClusterCtx_def)

text \<open>
  C10, amended. \<open>Get\<close> panics exactly when the context carries a cluster name, the system
  lookup does not fail with an error other than not-found, and the value under the
  accept-header key is not a string. So \<open>Get\<close> never panics on a context whose accept
  value is a string (possibly empty), and a context without one makes it panic unless
  the missing cluster name or a failing system lookup returns an error first.
\<close>

theorem Get_panics_iff:
  "Get L c cx name = Panics \<longleftrightarrow>
     (\<exists>clusterName. ctxCluster cx = Some clusterName
        \<and> (\<forall>err. getSystemCRD L c clusterName name = Inl err \<longrightarrow> IsNotFound err)
        \<and> (\<forall>accept. ctxAccept cx \<noteq> StringValue accept))"
proof (cases "ctxCluster cx")
  case None
  then show ?thesis by (simp add: Get_def ClusterNameFrom_def)
next
  case (Some clusterName)
  have p: "isPartialMetadataRequest L cx = Panics \<longleftrightarrow> (\<forall>accept. ctxAccept cx \<noteq> StringValue accept)"
    by (cases "ctxAccept cx") (simp_all add: isPartialMetadataRequest_def)
  show ?thesis
    using Some p
    by (auto simp: Get_unfold[OF Some] split: sum.splits outcome.splits)
qed

theorem Get_panics_iff_witness:
  "Get sampleLib sampleLister noAcceptCtx ''widgets.example.io'' = Panics
   \<and> Get sampleLib sampleLister wsCtx ''widgets.example.io'' \<noteq> Panics"
proof -
  from Get_panics_iff[of sampleLib sampleLister noAcceptCtx "''widgets.example.io''"]
       Get_panics_iff[of sampleLib sampleLister wsCtx "''widgets.example.io''"] sample_sys_miss_widgets
  show ?thesis by (simp add: noAcceptCtx_def wsCtx_def)
qed

subsection \<open>Refresh\<close>

text \<open>
  C9, as stated, fails. \<open>staleCRD\<close> is \<open>decorate(S0, id)\<close> for the empty identity, its UID
  ends with the wildcard partial-metadata suffix, and it carries no partial-metadata
  marker. The store copy carries the identity \<open>old\<close>. \<open>Refresh\<close> returns the store copy as
  it is: the UID of the input is not preserved, and the identity read from the result is
  \<open>old\<close>, not the identity of the input.
\<close>

theorem Refresh_drops_counterexample:
  "Refresh relabelledLister staleCRD = Inr relabelledCRD
   \<and> HasSuffix (crdUID staleCRD) ''.wildcard.partial-metadata''
   \<and> crdUID relabelledCRD \<noteq> crdUID staleCRD
   \<and> annotationOf (crdAnnotations staleCRD) AnnotationAPIIdentityKey = ''''
   \<and> annotationOf (crdAnnotations relabelledCRD) AnnotationAPIIdentityKey = ''old''"
  by (simp add: Refresh_def staleCRD_def decorateCRDWithBinding_def shallowCopyCRDAndDeepCopyAnnotations_def
      Let_def boundWidgetsCRD_def sampleCRD_def sampleLister_def relabelledLister_def relabelledCRD_def
      ToClusterAwareKey_def ShadowWorkspaceName_def
      annotationOf_def AnnotationAPIIdentityKey_def annotationKeyPartialMetadata_def HasSuffix_def)

text \<open>
  C9, amended. \<open>Refresh(S)\<close> fetches the store copy keyed by the owning workspace and the
  name of \<open>S\<close>; when the fetch fails it returns the error. Otherwise the result is the
  store copy on which are preserved: the identity annotation of \<open>S\<close> when it is not
  empty; the partial-metadata projection (the marker and minimal version schemas) when
  \<open>S\<close> carries the marker; and the UID of \<open>S\<close> when \<open>S\<close> carries the marker and its UID ends
  with the wildcard partial-metadata suffix. In particular a successful
  \<open>Refresh(decorate(S0, id))\<close> carries \<open>id\<close> for every non-empty \<open>id\<close>, whatever the store
  copy holds.
\<close>

theorem Refresh_preserves:
  "(\<forall>err. crdLister c (ToClusterAwareKey (crdClusterName S) (crdName S)) = Inl err \<longrightarrow>
       Refresh c S = Inl err)
   \<and> (\<forall>U. crdLister c (ToClusterAwareKey (crdClusterName S) (crdName S)) = Inr U \<longrightarrow>
       (\<exists>R. Refresh c S = Inr R
          \<and> crdName R = crdName U \<and> crdClusterName R = crdClusterName U
          \<and> crdLabels R = crdLabels U \<and> crdConditions R = crdConditions U
          \<and> crdDeletionTimestamp R = crdDeletionTimestamp U
          \<and> (annotationOf (crdAnnotations S) AnnotationAPIIdentityKey \<noteq> '''' \<longrightarrow>
                crdAnnotations R AnnotationAPIIdentityKey = crdAnnotations S AnnotationAPIIdentityKey)
          \<and> (crdAnnotations S annotationKeyPartialMetadata \<noteq> None \<longrightarrow>
                crdAnnotations R annotationKeyPartialMetadata = Some ''''
              \<and> list_all (\<lambda>v. versionSchema v = Some minimalSchema) (specVersions (crdSpec R))
              \<and> (HasSuffix (crdUID S) ''.wildcard.partial-metadata'' \<longrightarrow> crdUID R = crdUID S))
          \<and> (crdAnnotations S annotationKeyPartialMetadata = None \<longrightarrow>
                crdSpec R = crdSpec U \<and> crdUID R = crdUID U)))
   \<and> (\<forall>L S0 identity t R. S = decorateCRDWithBinding L S0 identity t \<and> identity \<noteq> ''''
         \<and> Refresh c S = Inr R \<longrightarrow> crdAnnotations R AnnotationAPIIdentityKey = Some identity)"
proof -
  have 1: "\<forall>err. crdLister c (ToClusterAwareKey (crdClusterName S) (crdName S)) = Inl err \<longrightarrow>
       Refresh c S = Inl err"
    by (simp add: Refresh_def)
  have 2: "\<forall>U. crdLister c (ToClusterAwareKey (crdClusterName S) (crdName S)) = Inr U \<longrightarrow>
       (\<exists>R. Refresh c S = Inr R
          \<and> crdName R = crdName U \<and> crdClusterName R = crdClusterName U
          \<and> crdLabels R = crdLabels U \<and> crdConditions R = crdConditions U
          \<and> crdDeletionTimestamp R = crdDeletionTimestamp U
          \<and> (annotationOf (crdAnnotations S) AnnotationAPIIdentityKey \<noteq> '''' \<longrightarrow>
                crdAnnotations R AnnotationAPIIdentityKey = crdAnnotations S AnnotationAPIIdentityKey)
          \<and> (crdAnnotations S annotationKeyPartialMetadata \<noteq> None \<longrightarrow>
                crdAnnotations R annotationKeyPartialMetadata = Some ''''
              \<and> list_all (\<lambda>v. versionSchema v = Some minimalSchema) (specVersions (crdSpec R))
              \<and> (HasSuffix (crdUID S) ''.wildcard.partial-metadata'' \<longrightarrow> crdUID R = crdUID S))
          \<and> (crdAnnotations S annotationKeyPartialMetadata = None \<longrightarrow>
                crdSpec R = crdSpec U \<and> crdUID R = crdUID U))"
    using keys_distinct
    by (auto simp: Refresh_def Let_def shallowCopyCRDAndDeepCopyAnnotations_def annotationOf_def
        makePartialMetadataCRD_def minimalVersions_def list_all_iff split: option.splits)
  have 3: "\<forall>L S0 identity t R. S = decorateCRDWithBinding L S0 identity t \<and> identity \<noteq> ''''
         \<and> Refresh c S = Inr R \<longrightarrow> crdAnnotations R AnnotationAPIIdentityKey = Some identity"
  proof (intro allI impI)
    fix L S0 identity t R
    assume a: "S = decorateCRDWithBinding L S0 identity t \<and> identity \<noteq> '''' \<and> Refresh c S = Inr R"
    then have ann: "crdAnnotations S AnnotationAPIIdentityKey = Some identity"
      by (simp add: decorate_annotation)
    then have ne: "annotationOf (crdAnnotations S) AnnotationAPIIdentityKey \<noteq> ''''"
      using a by (simp add: annotationOf_def)
    from a obtain U where U: "crdLister c (ToClusterAwareKey (crdClusterName S) (crdName S)) = Inr U"
      by (cases "crdLister c (ToClusterAwareKey (crdClusterName S) (crdName S))") (auto simp: Refresh_def)
    from 2 U ne a ann show "crdAnnotations R AnnotationAPIIdentityKey = Some identity"
      by auto
  qed
  show ?thesis using 1 2 3 by blast
qed

theorem Refresh_preserves_witness:
  "(case Refresh sampleLister projectedBoundCRD of
      Inl err \<Rightarrow> False
    | Inr R \<Rightarrow> crdAnnotations R AnnotationAPIIdentityKey = Some ''id1''
             \<and> crdAnnotations R annotationKeyPartialMetadata = Some ''''
             \<and> crdUID R = ''widgets.example.io.wildcard.partial-metadata''
             \<and> crdUID boundWidgetsCRD = ''u-bound''
             \<and> crdConditions R = [establishedCondition])"
proof -
  have l: "crdLister sampleLister (ToClusterAwareKey (crdClusterName projectedBoundCRD) (crdName projectedBoundCRD))
      = Inr boundWidgetsCRD"
    by (simp add: projectedBoundCRD_fields sampleLister_def sampleCRDLister_def ToClusterAwareKey_def)
  have h: "HasSuffix (crdUID projectedBoundCRD) ''.wildcard.partial-metadata''"
    by (simp add: projectedBoundCRD_fields HasSuffix_def)
  have n: "annotationOf (crdAnnotations projectedBoundCRD) AnnotationAPIIdentityKey \<noteq> ''''"
    by (simp add: annotationOf_def projectedBoundCRD_fields)
  have u: "crdUID boundWidgetsCRD = ''u-bound''" "crdConditions boundWidgetsCRD = [establishedCondition]"
    by (simp_all add: boundWidgetsCRD_def sampleCRD_def)
  from Refresh_preserves[of sampleLister projectedBoundCRD] l h n u
  show ?thesis by (auto simp: projectedBoundCRD_fields)
qed

subsection \<open>List\<close>

lemma boundResourceStep_skip:
  assumes "bindingDeletionTimestamp b' = bindingDeletionTimestamp b"
  shows "listed (boundResourceStep L c selector b br (ret, seen, lg)) =
     (if fetchable c br then listed (boundResourceStep L c selector b' br (ret, seen, lg'))
      else (ret, seen))"
  using assms
  by (simp add: boundResourceStep_def fetchable_def shadowKey_def listed_def Let_def split: sum.splits)

lemma fold_boundResourceStep_skip:
  assumes "bindingDeletionTimestamp b' = bindingDeletionTimestamp b"
  shows "listed (fold (boundResourceStep L c selector b) brs (ret, seen, lg)) =
         listed (fold (boundResourceStep L c selector b') (filter (fetchable c) brs) (ret, seen, lg'))"
proof (induction brs arbitrary: ret seen lg lg')
  case Nil
  show ?case by (simp add: listed_def)
next
  case (Cons br brs)
  obtain r1 s1 l1 where a: "boundResourceStep L c selector b br (ret, seen, lg) = (r1, s1, l1)"
    by (metis prod_cases3)
  show ?case
  proof (cases "fetchable c br")
    case True
    obtain r2 s2 l2 where b: "boundResourceStep L c selector b' br (ret, seen, lg') = (r2, s2, l2)"
      by (metis prod_cases3)
    have "r1 = r2 \<and> s1 = s2"
      using boundResourceStep_skip[OF assms, of L c selector br ret seen lg lg'] True a b
      by (simp add: listed_def)
    then show ?thesis using True a b Cons.IH[of r1 s1 l1 l2] by simp
  next
    case False
    have "r1 = ret \<and> s1 = seen"
      using boundResourceStep_skip[OF assms, of L c selector br ret seen lg lg'] False a
      by (simp add: listed_def)
    then show ?thesis using False a Cons.IH[of ret seen l1 lg'] by simp
  qed
qed

lemma bindingStep_skip:
  "listed (bindingStep L c selector b (ret, seen, lg)) =
   listed (bindingStep L c selector (withoutUnfetchable c b) (ret, seen, lg'))"
proof -
  have t: "IsTrue (withoutUnfetchable c b) InitialBindingCompleted = IsTrue b InitialBindingCompleted"
    by (simp add: withoutUnfetchable_def IsTrue_def)
  have d: "bindingDeletionTimestamp (withoutUnfetchable c b) = bindingDeletionTimestamp b"
    by (simp add: withoutUnfetchable_def)
  show ?thesis
    using fold_boundResourceStep_skip[OF d, of L c selector "boundResources b" ret seen lg lg'] t
    by (simp add: bindingStep_def listed_def withoutUnfetchable_def)
qed

lemma listBindings_skip:
  "listed (listBindings L c selector bs (ret, seen, lg)) =
   listed (listBindings L c selector (map (withoutUnfetchable c) bs) (ret, seen, lg'))"
proof (induction bs arbitrary: ret seen lg lg')
  case Nil
  show ?case by (simp add: listBindings_def listed_def)
next
  case (Cons b bs)
  obtain r1 s1 l1 where a: "bindingStep L c selector b (ret, seen, lg) = (r1, s1, l1)"
    by (metis prod_cases3)
  obtain r2 s2 l2 where b: "bindingStep L c selector (withoutUnfetchable c b) (ret, seen, lg') = (r2, s2, l2)"
    by (metis prod_cases3)
  have "r1 = r2 \<and> s1 = s2"
    using bindingStep_skip[of L c selector b ret seen lg lg'] a b by (simp add: listed_def)
  then show ?case
    using a b Cons.IH[of r1 s1 l1 l2] by (simp add: listBindings_def)
qed

lemma listLocal_listed:
  "listed (listLocal selector objs (ret, seen, lg)) =
     (ret @ filter (\<lambda>crd. selector (crdLabels crd) \<and> crdNameOf crd \<notin> seen) objs, seen)"
  unfolding listLocal_def
  by (induction objs arbitrary: ret lg) (simp_all add: listed_def localStep_def)

lemma boundResourceStep_logged:
  "\<exists>ext. logged (boundResourceStep L c selector b br st) = logged st @ ext"
  by (cases st) (simp add: boundResourceStep_def logged_def Let_def split: sum.splits)

lemma fold_boundResourceStep_logged:
  "\<exists>ext. logged (fold (boundResourceStep L c selector b) brs st) = logged st @ ext"
proof (induction brs arbitrary: st)
  case Nil
  show ?case by simp
next
  case (Cons br brs)
  obtain e1 where 1: "logged (boundResourceStep L c selector b br st) = logged st @ e1"
    using boundResourceStep_logged by blast
  obtain e2 where "logged (fold (boundResourceStep L c selector b) brs (boundResourceStep L c selector b br st))
      = logged (boundResourceStep L c selector b br st) @ e2"
    using Cons.IH by blast
  with 1 show ?case by simp
qed

lemma bindingStep_logged:
  "\<exists>ext. logged (bindingStep L c selector b st) = logged st @ ext"
  using fold_boundResourceStep_logged[of L c selector b "boundResources b" st]
  by (simp add: bindingStep_def)

lemma listBindings_logged:
  "\<exists>ext. logged (listBindings L c selector bs st) = logged st @ ext"
  unfolding listBindings_def
proof (induction bs arbitrary: st)
  case Nil
  show ?case by simp
next
  case (Cons b bs)
  obtain e1 where 1: "logged (bindingStep L c selector b st) = logged st @ e1"
    using bindingStep_logged by blast
  obtain e2 where "logged (fold (bindingStep L c selector) bs (bindingStep L c selector b st))
      = logged (bindingStep L c selector b st) @ e2"
    using Cons.IH by blast
  with 1 show ?case by simp
qed

lemma listLocal_logged:
  "\<exists>ext. logged (listLocal selector objs st) = logged st @ ext"
  unfolding listLocal_def
proof (induction objs arbitrary: st)
  case Nil
  show ?case by simp
next
  case (Cons crd objs)
  have "\<exists>e1. logged (localStep selector crd st) = logged st @ e1"
    by (cases st) (simp add: localStep_def logged_def)
  then obtain e1 where 1: "logged (localStep selector crd st) = logged st @ e1"
    by blast
  obtain e2 where "logged (fold (localStep selector) objs (localStep selector crd st))
      = logged (localStep selector crd st) @ e2"
    using Cons.IH by blast
  with 1 show ?case by simp
qed

lemma fold_boundResourceStep_logs_failure:
  assumes "br \<in> set brs" and "crdLister c (shadowKey br) = Inl err"
  shows "ErrorGettingBoundCRD (shadowKey br) err \<in> set (logged (fold (boundResourceStep L c selector b) brs st))"
  using assms(1)
proof (induction brs arbitrary: st)
  case Nil
  then show ?case by simp
next
  case (Cons x brs)
  show ?case
  proof (cases "x = br")
    case True
    have "ErrorGettingBoundCRD (shadowKey br) err \<in> set (logged (boundResourceStep L c selector b br st))"
      using assms(2) by (cases st) (simp add: boundResourceStep_def logged_def shadowKey_def)
    moreover obtain ext where
      "logged (fold (boundResourceStep L c selector b) brs (boundResourceStep L c selector b br st))
        = logged (boundResourceStep L c selector b br st) @ ext"
      using fold_boundResourceStep_logged by blast
    ultimately show ?thesis using True by simp
  next
    case False
    with Cons.prems have "br \<in> set brs" by simp
    from Cons.IH[OF this] show ?thesis by simp
  qed
qed

lemma listBindings_logs_failure:
  assumes "b \<in> set bs" and "IsTrue b InitialBindingCompleted"
    and "br \<in> set (boundResources b)" and "crdLister c (shadowKey br) = Inl err"
  shows "ErrorGettingBoundCRD (shadowKey br) err \<in> set (logged (listBindings L c selector bs st))"
  using assms(1) unfolding listBindings_def
proof (induction bs arbitrary: st)
  case Nil
  then show ?case by simp
next
  case (Cons x bs)
  show ?case
  proof (cases "x = b")
    case True
    have "ErrorGettingBoundCRD (shadowKey br) err \<in> set (logged (bindingStep L c selector b st))"
      using fold_boundResourceStep_logs_failure[OF assms(3,4)] assms(2) by (simp add: bindingStep_def)
    moreover obtain ext where
      "logged (fold (bindingStep L c selector) bs (bindingStep L c selector b st))
        = logged (bindingStep L c selector b st) @ ext"
      using listBindings_logged[of L c selector bs "bindingStep L c selector b st"]
      unfolding listBindings_def by blast
    ultimately show ?thesis using True by simp
  next
    case False
    with Cons.prems have "b \<in> set bs" by simp
    from Cons.IH[OF this] show ?thesis by simp
  qed
qed

lemma listSystemCRDs_fails:
  "k \<in> set ks \<Longrightarrow> g k = Inl e \<Longrightarrow> \<exists>err. listSystemCRDs g ks ret = Inl err"
  by (induction ks arbitrary: ret) (auto split: sum.splits)

lemma List_unfold:
  assumes "ctxCluster cx = Some clusterName"
    and "providerList L (systemCRDProvider c) clusterName = Inr sys"
    and "apiBindingIndexer c (BindingsByWorkspace clusterName) = Inr objs"
  shows "List L c cx selector =
    (case crdIndexer c (CRDsByWorkspace clusterName) of
       Inl err \<Rightarrow> (Inl err, logged (listBindings L c selector objs (sys, set (map crdNameOf sys), [])))
     | Inr locals \<Rightarrow>
         (Inr (fst (listed (listLocal selector locals (listBindings L c selector objs (sys, set (map crdNameOf sys), []))))),
          logged (listLocal selector locals (listBindings L c selector objs (sys, set (map crdNameOf sys), [])))))"
  using assms
  by (simp add: List_def ClusterNameFrom_def Let_def listed_def logged_def split: sum.splits prod.splits)

lemma decorate_spec: "crdSpec (decorateCRDWithBinding L S identity t) = crdSpec S"
  by (simp add: decorateCRDWithBinding_def decorateTerminating_def SetCRDCondition_def
      shallowCopyCRDAndDeepCopyAnnotations_def Let_def split: option.splits)

lemma crdNameOf_decorate: "crdNameOf (decorateCRDWithBinding L S identity t) = crdNameOf S"
  by (simp add: crdNameOf_def decorate_spec)

lemma plain_keys: "Keys sampleLib emptyProvider clusterName = {}"
  by (simp add: Keys_def emptyProvider_def split: sum.splits prod.splits)

lemma plain_providerList: "providerList sampleLib (systemCRDProvider plainLister) clusterName = Inr []"
  by (simp add: providerList_def plainLister_def plain_keys)

lemma broken_providerList:
  "providerList sampleLib (systemCRDProvider brokenSystemLister) ''root:org:ws''
     = Inl (Wrapped ''error getting system CRD'' NotFound)"
  by (simp add: providerList_def brokenSystemLister_def Keys_def emptyProvider_def RootCluster_def
      sampleLib_def sampleSplit_def sampleWorkspaces_def ToClusterAwareKey_def sampleCRDLister_def)

lemma plain_bindings:
  "apiBindingIndexer plainLister (BindingsByWorkspace ''root:org:ws'') = Inr [pendingBinding, widgetsBinding]"
  "apiBindingIndexer plainLister (BindingsByWorkspace ''root:org:broken'') = Inr []"
  by (simp_all add: plainLister_def sampleLister_def sampleBindingIndexer_def)

lemma plain_locals:
  "crdIndexer plainLister (CRDsByWorkspace ''root:org:ws'') = Inr [localWidgetsCRD, localGadgetsCRD]"
  "crdIndexer plainLister (CRDsByWorkspace ''root:org:broken'') = Inl (StoreError ''index'')"
  by (simp_all add: plainLister_def sampleLister_def sampleCRDIndexer_def)

lemma plain_shadow:
  "crdLister plainLister (ToClusterAwareKey ShadowWorkspaceName ''u-gizmos'') = Inl NotFound"
  "crdLister plainLister (ToClusterAwareKey ShadowWorkspaceName ''u-widgets'') = Inr boundWidgetsCRD"
  by (simp_all add: plainLister_def sampleLister_def sampleCRDLister_def ToClusterAwareKey_def
      ShadowWorkspaceName_def)

lemma sample_crdNames:
  "crdNameOf boundWidgetsCRD = ''widgets.example.io''"
  "crdNameOf localWidgetsCRD = ''widgets.example.io''"
  "crdNameOf localGadgetsCRD = ''gadgets.example.io''"
  "crdName localWidgetsCRD = ''widgets.example.io''"
  by (simp_all add: crdNameOf_def boundWidgetsCRD_def localWidgetsCRD_def localGadgetsCRD_def sampleCRD_def)

lemma sample_binding_facts:
  "\<not> IsTrue pendingBinding InitialBindingCompleted"
  "IsTrue widgetsBinding InitialBindingCompleted"
  "bindingDeletionTimestamp widgetsBinding = Some 42"
  "boundResources widgetsBinding =
     [\<lparr>brGroup = ''example.io'', brResource = ''gizmos'', brSchemaUID = ''u-gizmos'', brIdentityHash = ''id1''\<rparr>,
      \<lparr>brGroup = ''example.io'', brResource = ''widgets'', brSchemaUID = ''u-widgets'', brIdentityHash = ''id1''\<rparr>]"
  by (simp_all add: pendingBinding_def widgetsBinding_def IsTrue_def InitialBindingCompleted_def)

lemma plain_listBindings:
  "listBindings sampleLib plainLister (\<lambda>_. True) [pendingBinding, widgetsBinding] ([], {}, []) =
    ([decorateCRDWithBinding sampleLib boundWidgetsCRD ''id1'' (Some 42)], {''widgets.example.io''},
     [ErrorGettingBoundCRD (ToClusterAwareKey ShadowWorkspaceName ''u-gizmos'') NotFound])"
  by (simp add: listBindings_def bindingStep_def boundResourceStep_def sample_binding_facts plain_shadow
      crdNameOf_decorate sample_crdNames Let_def)

lemma plain_listLocal:
  "listLocal (\<lambda>_. True) [localWidgetsCRD, localGadgetsCRD] (ret, {''widgets.example.io''}, lg) =
    (ret @ [localGadgetsCRD], {''widgets.example.io''}, lg @ [SkippingLocalCRD ''widgets.example.io''])"
  by (simp add: listLocal_def localStep_def sample_crdNames)

text \<open>
  C7. With a cluster name in the context: an error of the system provider's \<open>List\<close>
  (which any system key that \<open>getCRD\<close> cannot fetch causes) fails the call, and so does an
  error of the local-workspace index. When the system provider, the binding index and
  the local index all answer, \<open>List\<close> returns a list whatever the CRD lister answers for
  the bound resources: the list is the one \<open>List\<close> returns when every bound resource whose
  shadow CRD cannot be fetched is removed from its binding, so such a bound resource is
  skipped and every other binding and the local CRDs contribute as before; and the
  failed fetch of a bound resource of a completed binding is in the log.
\<close>

theorem List_partial_failures:
  assumes cl: "ctxCluster cx = Some clusterName"
  shows "(\<forall>err. providerList L (systemCRDProvider c) clusterName = Inl err \<longrightarrow>
            fst (List L c cx selector) = Inl (Wrapped ''error retrieving kcp system CRDs'' err))
    \<and> (\<forall>k e. finite (Keys L (systemCRDProvider c) clusterName)
            \<and> k \<in> Keys L (systemCRDProvider c) clusterName
            \<and> getCRD (systemCRDProvider c) k = Inl e \<longrightarrow>
            (\<exists>err. fst (List L c cx selector) = Inl err))
    \<and> (\<forall>sys objs err. providerList L (systemCRDProvider c) clusterName = Inr sys
            \<and> apiBindingIndexer c (BindingsByWorkspace clusterName) = Inr objs
            \<and> crdIndexer c (CRDsByWorkspace clusterName) = Inl err \<longrightarrow>
            fst (List L c cx selector) = Inl err)
    \<and> (\<forall>sys objs locals. providerList L (systemCRDProvider c) clusterName = Inr sys
            \<and> apiBindingIndexer c (BindingsByWorkspace clusterName) = Inr objs
            \<and> crdIndexer c (CRDsByWorkspace clusterName) = Inr locals \<longrightarrow>
            (\<exists>ret. fst (List L c cx selector) = Inr ret
               \<and> fst (List L (c\<lparr>apiBindingIndexer :=
                                  (apiBindingIndexer c)(BindingsByWorkspace clusterName :=
                                      Inr (map (withoutUnfetchable c) objs))\<rparr>) cx selector) = Inr ret)
          \<and> (\<forall>b br err. b \<in> set objs \<and> IsTrue b InitialBindingCompleted
                \<and> br \<in> set (boundResources b) \<and> crdLister c (shadowKey br) = Inl err \<longrightarrow>
                ErrorGettingBoundCRD (shadowKey br) err \<in> set (snd (List L c cx selector))))"
proof -
  have 1: "\<forall>err. providerList L (systemCRDProvider c) clusterName = Inl err \<longrightarrow>
            fst (List L c cx selector) = Inl (Wrapped ''error retrieving kcp system CRDs'' err)"
    using cl by (simp add: List_def ClusterNameFrom_def)
  have 2: "\<forall>k e. finite (Keys L (systemCRDProvider c) clusterName)
            \<and> k \<in> Keys L (systemCRDProvider c) clusterName
            \<and> getCRD (systemCRDProvider c) k = Inl e \<longrightarrow>
            (\<exists>err. fst (List L c cx selector) = Inl err)"
  proof (intro allI impI)
    fix k e
    assume a: "finite (Keys L (systemCRDProvider c) clusterName)
            \<and> k \<in> Keys L (systemCRDProvider c) clusterName
            \<and> getCRD (systemCRDProvider c) k = Inl e"
    then have "k \<in> set (sorted_list_of_set (Keys L (systemCRDProvider c) clusterName))"
      by simp
    with a obtain err where "providerList L (systemCRDProvider c) clusterName = Inl err"
      using listSystemCRDs_fails[of k _ "getCRD (systemCRDProvider c)" e "[]"]
      unfolding providerList_def by blast
    with 1 show "\<exists>err. fst (List L c cx selector) = Inl err" by blast
  qed
  have 3: "\<forall>sys objs err. providerList L (systemCRDProvider c) clusterName = Inr sys
            \<and> apiBindingIndexer c (BindingsByWorkspace clusterName) = Inr objs
            \<and> crdIndexer c (CRDsByWorkspace clusterName) = Inl err \<longrightarrow>
            fst (List L c cx selector) = Inl err"
    by (simp add: List_unfold[OF cl])
  have 4: "\<forall>sys objs locals. providerList L (systemCRDProvider c) clusterName = Inr sys
            \<and> apiBindingIndexer c (BindingsByWorkspace clusterName) = Inr objs
            \<and> crdIndexer c (CRDsByWorkspace clusterName) = Inr locals \<longrightarrow>
            (\<exists>ret. fst (List L c cx selector) = Inr ret
               \<and> fst (List L (c\<lparr>apiBindingIndexer :=
                                  (apiBindingIndexer c)(BindingsByWorkspace clusterName :=
                                      Inr (map (withoutUnfetchable c) objs))\<rparr>) cx selector) = Inr ret)
          \<and> (\<forall>b br err. b \<in> set objs \<and> IsTrue b InitialBindingCompleted
                \<and> br \<in> set (boundResources b) \<and> crdLister c (shadowKey br) = Inl err \<longrightarrow>
                ErrorGettingBoundCRD (shadowKey br) err \<in> set (snd (List L c cx selector)))"
  proof (intro allI impI)
    fix sys objs locals
    assume a: "providerList L (systemCRDProvider c) clusterName = Inr sys
            \<and> apiBindingIndexer c (BindingsByWorkspace clusterName) = Inr objs
            \<and> crdIndexer c (CRDsByWorkspace clusterName) = Inr locals"
    let ?c' = "c\<lparr>apiBindingIndexer :=
                   (apiBindingIndexer c)(BindingsByWorkspace clusterName := Inr (map (withoutUnfetchable c) objs))\<rparr>"
    let ?st0 = "(sys, set (map crdNameOf sys), []) :: listState"
    have step: "\<And>b. boundResourceStep L ?c' selector b = boundResourceStep L c selector b"
      by (intro ext) (simp add: boundResourceStep_def)
    have bstep: "bindingStep L ?c' selector = bindingStep L c selector"
      by (intro ext) (simp add: bindingStep_def step)
    have lb: "\<And>bs st. listBindings L ?c' selector bs st = listBindings L c selector bs st"
      by (simp add: listBindings_def bstep)
    have L1: "List L c cx selector =
        (Inr (fst (listed (listLocal selector locals (listBindings L c selector objs ?st0)))),
         logged (listLocal selector locals (listBindings L c selector objs ?st0)))"
      using a by (simp add: List_unfold[OF cl])
    have p': "providerList L (systemCRDProvider ?c') clusterName = Inr sys"
      using a by simp
    have L2: "List L ?c' cx selector =
        (Inr (fst (listed (listLocal selector locals
                (listBindings L c selector (map (withoutUnfetchable c) objs) ?st0)))),
         logged (listLocal selector locals (listBindings L c selector (map (withoutUnfetchable c) objs) ?st0)))"
      using a List_unfold[OF cl p', of "map (withoutUnfetchable c) objs" selector]
      by (simp add: lb)
    obtain r1 s1 l1 where b1: "listBindings L c selector objs ?st0 = (r1, s1, l1)"
      by (metis prod_cases3)
    obtain r2 s2 l2 where b2: "listBindings L c selector (map (withoutUnfetchable c) objs) ?st0 = (r2, s2, l2)"
      by (metis prod_cases3)
    have "r1 = r2 \<and> s1 = s2"
      using listBindings_skip[of L c selector objs sys "set (map crdNameOf sys)" "[]" "[]"] b1 b2
      by (simp add: listed_def)
    then have eq: "fst (List L c cx selector) = fst (List L ?c' cx selector)"
      using L1 L2 b1 b2 by (simp add: listLocal_listed)
    have ex: "\<exists>ret. fst (List L c cx selector) = Inr ret \<and> fst (List L ?c' cx selector) = Inr ret"
      using eq L1 by (metis fst_conv)
    have lg: "\<forall>b br err. b \<in> set objs \<and> IsTrue b InitialBindingCompleted
                \<and> br \<in> set (boundResources b) \<and> crdLister c (shadowKey br) = Inl err \<longrightarrow>
                ErrorGettingBoundCRD (shadowKey br) err \<in> set (snd (List L c cx selector))"
    proof (intro allI impI)
      fix b br err
      assume h: "b \<in> set objs \<and> IsTrue b InitialBindingCompleted
                \<and> br \<in> set (boundResources b) \<and> crdLister c (shadowKey br) = Inl err"
      then have "ErrorGettingBoundCRD (shadowKey br) err \<in> set (logged (listBindings L c selector objs ?st0))"
        using listBindings_logs_failure[of b objs br c err L selector ?st0] by blast
      moreover obtain ext where
        "logged (listLocal selector locals (listBindings L c selector objs ?st0))
           = logged (listBindings L c selector objs ?st0) @ ext"
        using listLocal_logged by blast
      ultimately show "ErrorGettingBoundCRD (shadowKey br) err \<in> set (snd (List L c cx selector))"
        using L1 by simp
    qed
    show "(\<exists>ret. fst (List L c cx selector) = Inr ret \<and> fst (List L ?c' cx selector) = Inr ret)
          \<and> (\<forall>b br err. b \<in> set objs \<and> IsTrue b InitialBindingCompleted
                \<and> br \<in> set (boundResources b) \<and> crdLister c (shadowKey br) = Inl err \<longrightarrow>
                ErrorGettingBoundCRD (shadowKey br) err \<in> set (snd (List L c cx selector)))"
      using ex lg by blast
  qed
  show ?thesis using 1 2 3 4 by blast
qed

theorem List_partial_failures_witness:
  "List sampleLib plainLister wsCtx (\<lambda>_. True) =
     (Inr [decorateCRDWithBinding sampleLib boundWidgetsCRD ''id1'' (Some 42), localGadgetsCRD],
      [ErrorGettingBoundCRD (''system:bound-crds'', ''u-gizmos'') NotFound,
       SkippingLocalCRD ''widgets.example.io''])
   \<and> fst (List sampleLib brokenSystemLister wsCtx (\<lambda>_. True)) =
        Inl (Wrapped ''error retrieving kcp system CRDs'' (Wrapped ''error getting system CRD'' NotFound))
   \<and> fst (List sampleLib plainLister brokenCtx (\<lambda>_. True)) = Inl (StoreError ''index'')"
proof -
  have c: "ctxCluster wsCtx = Some ''root:org:ws''" "ctxCluster brokenCtx = Some ''root:org:broken''"
    by (simp_all add: wsCtx_def brokenCtx_def)
  have e: "List sampleLib plainLister wsCtx (\<lambda>_. True) =
     (Inr [decorateCRDWithBinding sampleLib boundWidgetsCRD ''id1'' (Some 42), localGadgetsCRD],
      [ErrorGettingBoundCRD (''system:bound-crds'', ''u-gizmos'') NotFound,
       SkippingLocalCRD ''widgets.example.io''])"
    by (simp add: List_unfold[OF c(1) plain_providerList plain_bindings(1)] plain_locals
        plain_listBindings plain_listLocal listed_def logged_def ToClusterAwareKey_def ShadowWorkspaceName_def)
  from List_partial_failures[OF c(1), of sampleLib brokenSystemLister "\<lambda>_. True"] broken_providerList
  have s: "fst (List sampleLib brokenSystemLister wsCtx (\<lambda>_. True)) =
        Inl (Wrapped ''error retrieving kcp system CRDs'' (Wrapped ''error getting system CRD'' NotFound))"
    by blast
  from List_partial_failures[OF c(2), of sampleLib plainLister "\<lambda>_. True"]
    plain_providerList[of "''root:org:broken''"] plain_bindings(2) plain_locals(2)
  have b: "fst (List sampleLib plainLister brokenCtx (\<lambda>_. True)) = Inl (StoreError ''index'')"
    by blast
  from List_partial_failures[OF c(1), of sampleLib plainLister "\<lambda>_. True"]
    plain_providerList[of "''root:org:ws''"] plain_bindings(1) plain_locals(1)
  have "\<exists>ret. fst (List sampleLib plainLister wsCtx (\<lambda>_. True)) = Inr ret"
    by blast
  with e s b show ?thesis by simp
qed

subsection \<open>Teardown of API definitions\<close>

text \<open>
  When the reconciler stops, \<open>Start\<close> calls \<open>TearDown\<close> on every definition that is in the
  registry at that moment.
\<close>

lemma fold_TearDown_tornDown:
  "tornDown (fold (\<lambda>(gvr, v) r. TearDown v r) sets r) = tornDown r @ map snd sets"
  by (induction sets arbitrary: r) (auto simp: TearDown_def)

lemma fold_TearDown_apiSets:
  "apiSets (fold (\<lambda>(gvr, v) r. TearDown v r) sets r) = apiSets r"
  by (induction sets arbitrary: r) (auto simp: TearDown_def)

lemma fold_sets_tornDown:
  "tornDown (fold (\<lambda>(k, sets) r. fold (\<lambda>(gvr, v) r. TearDown v r) sets r) xs r)
     = tornDown r @ concat (map (\<lambda>(k, sets). map snd sets) xs)"
  by (induction xs arbitrary: r) (auto simp: fold_TearDown_tornDown)

lemma Start_tornDown:
  "tornDown (Start r) = tornDown r @ concat (map (\<lambda>(k, sets). map snd sets) (apiSets r))"
  by (simp add: Start_def fold_sets_tornDown)

text \<open>
  C2. Every definition of the registry should be torn down exactly once, also when its
  whole set is removed because the sync target is gone. On the sample reconciler the
  set of \<open>root:org:ws|target\<close> holds the definition 1. Processing that key when the sync
  target is not found removes the set without any \<open>TearDown\<close>, and when the reconciler
  then stops the registry is empty: the definition 1 is never torn down. Had the key
  not been processed, stopping would have torn it down once.
\<close>

theorem removed_set_never_torn_down:
  "GetAPIDefinitionSet sampleReconciler ''root:org:ws|target'' = Some [(''widgets.v1.example.io'', 1)]
   \<and> process noSyncTargets idleReconcile sampleReconciler ''root:org:ws|target''
        = (None, \<lparr>apiSets = [], tornDown = []\<rparr>)
   \<and> tornDown (runReconciler noSyncTargets idleReconcile sampleReconciler [''root:org:ws|target'']) = []
   \<and> count_list (tornDown (runReconciler noSyncTargets idleReconcile sampleReconciler
                              [''root:org:ws|target''])) 1 = 0
   \<and> tornDown (runReconciler noSyncTargets idleReconcile sampleReconciler []) = [1]"
  by (simp add: GetAPIDefinitionSet_def sampleReconciler_def process_def noSyncTargets_def
      removeAPIDefinitionSet_def runReconciler_def Start_def TearDown_def)

subsection \<open>Sharing of the returned schema\<close>

text \<open>
  The functions on pointers compute, in the heap they return, the values that the
  functions on values compute from the values the lister stands for.
\<close>

lemma extends_refl: "extends h h"
  by (simp add: extends_def)

lemma extends_trans: "extends h h1 \<Longrightarrow> extends h1 h2 \<Longrightarrow> extends h h2"
  by (auto simp: extends_def)

lemma cached_view_extends:
  "cached h p \<Longrightarrow> extends h h' \<Longrightarrow> view h' p = view h p \<and> cached h' p"
  by (auto simp: cached_def extends_def view_def readAnnotations_def Let_def split: option.splits)

lemma newObject_extends:
  "newObject h h1 p \<Longrightarrow> extends h1 h2 \<Longrightarrow> newObject h h2 p"
  by (auto simp: newObject_def extends_def split: option.splits)

lemma newObject_view_extends:
  "newObject h h1 p \<Longrightarrow> extends h1 h2 \<Longrightarrow> view h2 p = view h1 p"
  by (auto simp: newObject_def extends_def view_def readAnnotations_def Let_def split: option.splits)

lemma shallowCopyP_facts:
  assumes "shallowCopyCRDAndDeepCopyAnnotationsP h p = (out, h')"
  shows "extends h h'" and "newObject h h' out" and "view h' out = view h p"
  using assms
  by (auto simp: shallowCopyCRDAndDeepCopyAnnotationsP_def newMap_def newCRD_def Let_def
      extends_def newObject_def view_def readAnnotations_def split: option.splits)

lemma mutateAnnotations_new:
  assumes "newObject h0 h p"
  shows "\<exists>h'. mutateAnnotations h p f = Returns h' \<and> (extends h0 h \<longrightarrow> extends h0 h')
     \<and> newObject h0 h' p
     \<and> view h' p = (view h p)\<lparr>crdAnnotations := f (crdAnnotations (view h p))\<rparr>
     \<and> nextCRD h' = nextCRD h \<and> nextMap h' = nextMap h \<and> crdObjects h' = crdObjects h
     \<and> (\<forall>a < nextMap h0. mapObjects h' a = mapObjects h a)"
  using assms
  by (auto simp: mutateAnnotations_def newObject_def extends_def view_def readAnnotations_def Let_def
      split: option.splits)

lemma updateCRD_new:
  assumes "newObject h0 h p" and "\<And>s. crdAnnotations (f s) = crdAnnotations s"
  shows "(extends h0 h \<longrightarrow> extends h0 (updateCRD h p f)) \<and> newObject h0 (updateCRD h p f) p"
  using assms
  by (auto simp: updateCRD_def newObject_def extends_def split: option.splits)

lemma view_fields:
  "crdSpec (view h p) = crdSpec (crdObjects h p)"
  "crdConditions (view h p) = crdConditions (crdObjects h p)"
  "crdAnnotations (view h p) = readAnnotations h (crdAnnotations (crdObjects h p))"
  by (simp_all add: view_def Let_def)

lemma view_updateCRD_decorateTerminating:
  "view (updateCRD h p (decorateTerminating now cs t)) p = decorateTerminating now cs t (view h p)"
  by (simp add: view_def updateCRD_def decorateTerminating_def SetCRDCondition_def Let_def
      readAnnotations_def split: option.splits)

lemma view_updateCRD_minimalVersions:
  "view (updateCRD h p minimalVersions) p = minimalVersions (view h p)"
  by (simp add: view_def updateCRD_def minimalVersions_def Let_def readAnnotations_def split: option.splits)

lemma view_updateCRD_uid:
  "view (updateCRD h p (\<lambda>s. s\<lparr>crdUID := u\<rparr>)) p = (view h p)\<lparr>crdUID := u\<rparr>"
  by (simp add: view_def updateCRD_def Let_def readAnnotations_def split: option.splits)

lemma annotations_decorateTerminating:
  "crdAnnotations (decorateTerminating now cs t s) = crdAnnotations s"
  by (simp add: decorateTerminating_def SetCRDCondition_def Let_def split: option.splits)

lemma annotations_minimalVersions: "crdAnnotations (minimalVersions s) = crdAnnotations s"
  by (simp add: minimalVersions_def)

lemma decorateP_refines:
  assumes alloc: "p < nextCRD h"
  shows "\<exists>out h'. decorateCRDWithBindingP L h p identity t = Returns (out, h')
          \<and> extends h h' \<and> newObject h h' out
          \<and> view h' out = decorateCRDWithBinding L (view h p) identity t"
proof -
  obtain out h1 where c: "shallowCopyCRDAndDeepCopyAnnotationsP h p = (out, h1)"
    by (cases "shallowCopyCRDAndDeepCopyAnnotationsP h p")
  note f = shallowCopyP_facts[OF c]
  obtain h2 where m: "setAnnotation h1 out AnnotationAPIIdentityKey identity = Returns h2"
    and e2: "extends h h2" and n2: "newObject h h2 out"
    and v2: "view h2 out = (view h1 out)\<lparr>crdAnnotations :=
               (crdAnnotations (view h1 out))(AnnotationAPIIdentityKey \<mapsto> identity)\<rparr>"
    and o2: "crdObjects h2 = crdObjects h1"
    using mutateAnnotations_new[OF f(2), of "\<lambda>m. m(AnnotationAPIIdentityKey \<mapsto> identity)"] f(1)
    unfolding setAnnotation_def by blast
  have inp: "crdObjects h2 p = crdObjects h p"
    using o2 f(1) alloc by (simp add: extends_def)
  show ?thesis
  proof (cases "IsZero t")
    case True
    then show ?thesis
      using c m e2 n2 v2 f(3)
      by (simp add: decorateCRDWithBindingP_def decorateCRDWithBinding_def
          shallowCopyCRDAndDeepCopyAnnotations_def Let_def)
  next
    case False
    let ?g = "decorateTerminating (Now L) (crdConditions (crdObjects h p)) t"
    have u: "extends h (updateCRD h2 out ?g) \<and> newObject h (updateCRD h2 out ?g) out"
      using updateCRD_new[OF n2, of ?g] e2 by (simp add: annotations_decorateTerminating)
    have "view (updateCRD h2 out ?g) out = ?g (view h2 out)"
      by (rule view_updateCRD_decorateTerminating)
    then show ?thesis
      using False c m u v2 f(3) inp
      by (simp add: decorateCRDWithBindingP_def decorateCRDWithBinding_def
          shallowCopyCRDAndDeepCopyAnnotations_def view_fields Let_def)
  qed
qed

lemma makePartialP_refines:
  assumes n: "newObject h0 h p" and e: "extends h0 h"
  shows "\<exists>h'. makePartialMetadataCRDP h p = Returns h' \<and> extends h0 h' \<and> newObject h0 h' p
          \<and> view h' p = makePartialMetadataCRD (view h p)"
proof -
  obtain h1 where m: "setAnnotation h p annotationKeyPartialMetadata '''' = Returns h1"
    and e1: "extends h0 h1" and n1: "newObject h0 h1 p"
    and v1: "view h1 p = (view h p)\<lparr>crdAnnotations :=
               (crdAnnotations (view h p))(annotationKeyPartialMetadata \<mapsto> '''')\<rparr>"
    using mutateAnnotations_new[OF n, of "\<lambda>m. m(annotationKeyPartialMetadata \<mapsto> '''')"] e
    unfolding setAnnotation_def by blast
  have u: "extends h0 (updateCRD h1 p minimalVersions) \<and> newObject h0 (updateCRD h1 p minimalVersions) p"
    using updateCRD_new[OF n1, of minimalVersions] e1 by (simp add: annotations_minimalVersions)
  show ?thesis
    using m u v1 view_updateCRD_minimalVersions[of h1 p]
    by (simp add: makePartialMetadataCRDP_def makePartialMetadataCRD_def)
qed

lemma projectResultP_refines:
  "\<exists>out h'. projectResultP clusterName pm name h crd = Returns (out, h')
      \<and> extends h h' \<and> view h' out = projectResult clusterName pm name (view h crd)
      \<and> (pm \<longrightarrow> newObject h h' out) \<and> (\<not> pm \<longrightarrow> out = crd \<and> h' = h)"
proof (cases pm)
  case False
  then show ?thesis by (simp add: projectResultP_def projectResult_def extends_refl)
next
  case True
  obtain out h1 where c: "shallowCopyCRDAndDeepCopyAnnotationsP h crd = (out, h1)"
    by (cases "shallowCopyCRDAndDeepCopyAnnotationsP h crd")
  note f = shallowCopyP_facts[OF c]
  obtain h2 where m: "makePartialMetadataCRDP h1 out = Returns h2" and e2: "extends h h2"
    and n2: "newObject h h2 out" and v2: "view h2 out = makePartialMetadataCRD (view h1 out)"
    using makePartialP_refines[OF f(2) f(1)] by blast
  let ?g = "\<lambda>s::pcrd. s\<lparr>crdUID := name @ ''.wildcard.partial-metadata''\<rparr>"
  have u: "extends h (updateCRD h2 out ?g) \<and> newObject h (updateCRD h2 out ?g) out"
    using updateCRD_new[OF n2, of ?g] e2 by simp
  show ?thesis
    using True c m e2 n2 v2 f(3) u view_updateCRD_uid[of h2 out]
    by (simp add: projectResultP_def projectResult_def shallowCopyCRDAndDeepCopyAnnotations_def)
qed

lemma viewLister_fields:
  "crdLister (viewLister h c) k = map_sum id (view h) (crdLister c k)"
  "crdIndexer (viewLister h c) q = map_sum id (map (view h)) (crdIndexer c q)"
  "apiBindingIndexer (viewLister h c) = apiBindingIndexer c"
  by (simp_all add: viewLister_def)

lemma cacheInHeap_lister: "cacheInHeap h c \<Longrightarrow> crdLister c k = Inr p \<Longrightarrow> cached h p"
  unfolding cacheInHeap_def by blast

lemma cacheInHeap_indexer:
  "cacheInHeap h c \<Longrightarrow> crdIndexer c q = Inr ps \<Longrightarrow> p \<in> set ps \<Longrightarrow> cached h p"
  unfolding cacheInHeap_def list_all_iff by blast

lemma Keys_view: "Keys L (systemCRDProvider (viewLister h c)) cl = Keys L (systemCRDProvider c) cl"
  by (simp add: Keys_def viewLister_def viewProvider_def split: prod.splits sum.splits)

lemma getSystemCRD_view:
  "getSystemCRD L (viewLister h c) cl name = map_sum id (view h) (getSystemCRD L c cl name)"
  by (simp add: getSystemCRD_def Keys_view viewLister_fields)

lemma boundCRDForIdentity_view:
  "boundCRDForIdentity (viewLister h c) name identity = boundCRDForIdentity c name identity"
  by (simp add: boundCRDForIdentity_def viewLister_fields)

lemma fullDataLoop_view:
  "fullDataLoop crdSpec (map_option (view h) f) (map (view h) objs) =
     map_sum id (map_option (view h)) (fullDataLoop (\<lambda>p. crdSpec (crdObjects h p)) f objs)"
proof (induction objs arbitrary: f)
  case Nil
  show ?case by simp
next
  case (Cons a objs)
  show ?case
  proof (cases f)
    case None
    then show ?thesis using Cons.IH[of "Some a"] by simp
  next
    case (Some g)
    then show ?thesis using Cons.IH[of "Some g"] by (simp add: view_fields)
  qed
qed

lemma getForFullDataWildcard_view:
  "getForFullDataWildcard (viewLister h c) name =
     map_sum id (view h) (getForFullDataWildcardOf (\<lambda>p. crdSpec (crdObjects h p)) c name)"
proof (cases "crdIndexer c (ByGroupResourceName name)")
  case (Inl err)
  then show ?thesis
    by (simp add: getForFullDataWildcard_def getForFullDataWildcardOf_def viewLister_fields)
next
  case (Inr objs)
  show ?thesis
    using Inr fullDataLoop_view[of h None objs]
    by (cases "fullDataLoop (\<lambda>p. crdSpec (crdObjects h p)) None objs")
       (auto simp: getForFullDataWildcard_def getForFullDataWildcardOf_def viewLister_fields
          split: option.splits)
qed

lemma getForWildcardPartialMetadata_view:
  "getForWildcardPartialMetadata (viewLister h c) name =
     map_sum id (view h) (getForWildcardPartialMetadata c name)"
  by (auto simp: getForWildcardPartialMetadata_def viewLister_fields split: sum.splits list.splits)

lemma fullDataLoop_member:
  "fullDataLoop specOf f objs = Inr (Some p) \<Longrightarrow> f = Some p \<or> p \<in> set objs"
  by (induction objs arbitrary: f) (auto split: option.splits if_splits)

lemma getForFullDataWildcardOf_cached:
  assumes "cacheInHeap h c" and "getForFullDataWildcardOf specOf c name = Inr p"
  shows "cached h p"
proof -
  from assms(2) obtain objs where i: "crdIndexer c (ByGroupResourceName name) = Inr objs"
    and l: "fullDataLoop specOf None objs = Inr (Some p)"
    by (auto simp: getForFullDataWildcardOf_def split: sum.splits option.splits)
  from fullDataLoop_member[OF l] have "p \<in> set objs" by simp
  with assms(1) i show ?thesis by (blast intro: cacheInHeap_indexer)
qed

lemma getForWildcardPartialMetadata_cached:
  assumes "cacheInHeap h c" and "getForWildcardPartialMetadata c name = Inr p"
  shows "cached h p"
  using assms
  by (auto simp: getForWildcardPartialMetadata_def split: sum.splits list.splits
      intro: cacheInHeap_indexer)

lemma getSystemCRD_cached:
  assumes "cacheInHeap h c" and "getSystemCRD L c cl name = Inr p"
  shows "cached h p"
  using assms by (auto simp: getSystemCRD_def split: if_splits intro: cacheInHeap_lister)

lemma getForIdentityP_refines:
  assumes wf: "cacheInHeap h c"
  shows "\<exists>r h1. getForIdentityP L h c name identity = Returns (r, h1) \<and> extends h h1
      \<and> map_sum id (view h1) r = getForIdentity L (viewLister h c) name identity
      \<and> (\<forall>p. r = Inr p \<longrightarrow> newObject h h1 p)"
proof (cases "boundCRDForIdentity c name identity")
  case (Inl err)
  then show ?thesis
    by (simp add: getForIdentityP_def getForIdentity_def boundCRDForIdentity_view extends_refl)
next
  case (Inr kd)
  obtain crdKey deleteTime where kd: "kd = (crdKey, deleteTime)" by (cases kd)
  show ?thesis
  proof (cases "crdLister c crdKey")
    case (Inl err)
    then show ?thesis
      using Inr kd
      by (simp add: getForIdentityP_def getForIdentity_def boundCRDForIdentity_view extends_refl
          viewLister_fields)
  next
    case (Inr crd)
    then have "cached h crd" using wf by (blast intro: cacheInHeap_lister)
    then have "crd < nextCRD h" by (simp add: cached_def)
    from decorateP_refines[OF this, of L identity deleteTime]
    obtain out h' where d: "decorateCRDWithBindingP L h crd identity deleteTime = Returns (out, h')"
      and e: "extends h h'" and n: "newObject h h' out"
      and v: "view h' out = decorateCRDWithBinding L (view h crd) identity deleteTime"
      by blast
    show ?thesis
      using \<open>boundCRDForIdentity c name identity = Inr kd\<close> kd Inr d e n v
      by (simp add: getForIdentityP_def getForIdentity_def boundCRDForIdentity_view viewLister_fields)
  qed
qed

lemma getP_refines:
  assumes wf: "cacheInHeap h c"
    and g: "crdNameToGroupResource name = (grp, resource)"
  shows "\<exists>r h1. getP L h c cl name = Returns (r, h1) \<and> extends h h1
      \<and> map_sum id (view h1) r = get L (viewLister h c) cl name
      \<and> (\<forall>p. r = Inr p \<longrightarrow>
            (case apiBindingIndexer c (BindingsByWorkspace cl) of
               Inl _ \<Rightarrow> False
             | Inr objs \<Rightarrow>
                 if firstBinding grp resource objs \<noteq> None then newObject h h1 p
                 else cached h p \<and> h1 = h))"
proof (cases "apiBindingIndexer c (BindingsByWorkspace cl)")
  case (Inl err)
  then show ?thesis
    using g by (simp add: getP_def get_def viewLister_fields extends_refl)
next
  case (Inr objs)
  show ?thesis
  proof (cases "firstBinding grp resource objs")
    case None
    show ?thesis
    proof (cases "crdLister c (ToClusterAwareKey cl name)")
      case (Inl err)
      then show ?thesis
        using g Inr None by (simp add: getP_def get_def viewLister_fields extends_refl)
    next
      case (Inr crd)
      then have "cached h crd" using wf by (blast intro: cacheInHeap_lister)
      then show ?thesis
        using g \<open>apiBindingIndexer c (BindingsByWorkspace cl) = Inr objs\<close> None Inr
        by (simp add: getP_def get_def viewLister_fields extends_refl)
    qed
  next
    case (Some bb)
    obtain b br where bb: "bb = (b, br)" by (cases bb)
    show ?thesis
    proof (cases "crdLister c (ToClusterAwareKey ShadowWorkspaceName (brSchemaUID br))")
      case (Inl err)
      then show ?thesis
        using g Inr Some bb by (simp add: getP_def get_def viewLister_fields extends_refl)
    next
      case (Inr crd)
      then have "cached h crd" using wf by (blast intro: cacheInHeap_lister)
      then have "crd < nextCRD h" by (simp add: cached_def)
      from decorateP_refines[OF this, of L "brIdentityHash br" "bindingDeletionTimestamp b"]
      obtain out h' where
        d: "decorateCRDWithBindingP L h crd (brIdentityHash br) (bindingDeletionTimestamp b) = Returns (out, h')"
        and e: "extends h h'" and n: "newObject h h' out"
        and v: "view h' out = decorateCRDWithBinding L (view h crd) (brIdentityHash br) (bindingDeletionTimestamp b)"
        by blast
      show ?thesis
        using g \<open>apiBindingIndexer c (BindingsByWorkspace cl) = Inr objs\<close> Some bb Inr d e n v
        by (simp add: getP_def get_def viewLister_fields)
    qed
  qed
qed

lemma resolveNonSystemP_refines:
  assumes wf: "cacheInHeap h c"
    and g: "crdNameToGroupResource name = (grp, resource)"
  shows "\<exists>r h1. resolveNonSystemP L h c cx cl pm name = Returns (r, h1) \<and> extends h h1
      \<and> map_sum id (view h1) r = resolveNonSystem L (viewLister h c) cx cl pm name
      \<and> (\<forall>p. r = Inr p \<longrightarrow>
            (if ctxIdentity cx \<noteq> ''''
                \<or> (cl \<noteq> Wildcard
                    \<and> (case apiBindingIndexer c (BindingsByWorkspace cl) of
                          Inl _ \<Rightarrow> False
                        | Inr objs \<Rightarrow> firstBinding grp resource objs \<noteq> None))
             then newObject h h1 p else cached h p \<and> h1 = h))"
proof (cases "ctxIdentity cx \<noteq> ''''")
  case True
  then show ?thesis
    using getForIdentityP_refines[OF wf, of L name "ctxIdentity cx"]
    by (simp add: resolveNonSystemP_def resolveNonSystem_def IdentityFromContext_def)
next
  case False
  note noid = this
  show ?thesis
  proof (cases "cl = Wildcard")
    case True
    show ?thesis
    proof (cases pm)
      case True
      then show ?thesis
        using noid \<open>cl = Wildcard\<close> getForWildcardPartialMetadata_view[of h c name]
          getForWildcardPartialMetadata_cached[OF wf, of name]
        by (simp add: resolveNonSystemP_def resolveNonSystem_def IdentityFromContext_def extends_refl)
    next
      case False
      then show ?thesis
        using noid \<open>cl = Wildcard\<close> getForFullDataWildcard_view[of h c name]
          getForFullDataWildcardOf_cached[OF wf, of "\<lambda>p. crdSpec (crdObjects h p)" name]
        by (simp add: resolveNonSystemP_def resolveNonSystem_def IdentityFromContext_def extends_refl)
    qed
  next
    case False
    from getP_refines[OF wf g, of L cl]
    obtain r h1 where a: "getP L h c cl name = Returns (r, h1)" and e: "extends h h1"
      and v: "map_sum id (view h1) r = get L (viewLister h c) cl name"
      and k: "\<forall>p. r = Inr p \<longrightarrow>
            (case apiBindingIndexer c (BindingsByWorkspace cl) of
               Inl _ \<Rightarrow> False
             | Inr objs \<Rightarrow>
                 if firstBinding grp resource objs \<noteq> None then newObject h h1 p
                 else cached h p \<and> h1 = h)"
      by blast
    show ?thesis
      using noid False a e v k
      by (auto simp: resolveNonSystemP_def resolveNonSystem_def IdentityFromContext_def
          split: sum.splits)
  qed
qed

lemma handsOutCopy_unfold:
  assumes "ctxCluster cx = Some cl" and "crdNameToGroupResource name = (grp, resource)"
  shows "handsOutCopy L c cx name \<longleftrightarrow>
     isPartialMetadataRequest L cx = Returns True
     \<or> (case getSystemCRD L c cl name of
           Inr _ \<Rightarrow> False
         | Inl _ \<Rightarrow>
             ctxIdentity cx \<noteq> ''''
             \<or> (cl \<noteq> Wildcard
                \<and> (case apiBindingIndexer c (BindingsByWorkspace cl) of
                      Inl _ \<Rightarrow> False
                    | Inr objs \<Rightarrow> firstBinding grp resource objs \<noteq> None)))"
  using assms by (simp add: handsOutCopy_def split: sum.splits)

lemma GetP_refines:
  assumes wf: "cacheInHeap h c"
  shows "viewResult (GetP L h c cx name) = Get L (viewLister h c) cx name
    \<and> (\<forall>r h1. GetP L h c cx name = Returns (r, h1) \<longrightarrow>
          extends h h1
          \<and> (\<forall>p. r = Inr p \<longrightarrow>
                (if handsOutCopy L c cx name then newObject h h1 p else cached h p \<and> h1 = h)))"
proof (cases "ctxCluster cx")
  case None
  then show ?thesis
    by (simp add: GetP_def Get_def ClusterNameFrom_def viewResult_def extends_refl)
next
  case (Some cl)
  obtain grp resource where g: "crdNameToGroupResource name = (grp, resource)"
    by (cases "crdNameToGroupResource name")
  note hoc = handsOutCopy_unfold[OF Some g, of L c]
  note sv = getSystemCRD_view[of L h c cl name]
  show ?thesis
  proof (cases "isPartialMetadataRequest L cx")
    case Panics
    then show ?thesis
      using Some sv
      by (cases "getSystemCRD L c cl name")
         (auto simp: GetP_def Get_def ClusterNameFrom_def viewResult_def extends_refl Let_def)
  next
    case (Returns pm)
    show ?thesis
    proof (cases "getSystemCRD L c cl name")
      case (Inr crd)
      have cc: "cached h crd" using getSystemCRD_cached[OF wf Inr] .
      from projectResultP_refines[of cl pm name h crd]
      obtain out h' where p: "projectResultP cl pm name h crd = Returns (out, h')"
        and e: "extends h h'" and v: "view h' out = projectResult cl pm name (view h crd)"
        and n: "pm \<longrightarrow> newObject h h' out" and k: "\<not> pm \<longrightarrow> out = crd \<and> h' = h"
        by blast
      show ?thesis
        using Some Returns Inr sv p e v n k cc hoc
        by (auto simp: GetP_def Get_def ClusterNameFrom_def viewResult_def Let_def)
    next
      case (Inl err)
      show ?thesis
      proof (cases "IsNotFound err")
        case False
        then show ?thesis
          using Some Returns Inl sv
          by (simp add: GetP_def Get_def ClusterNameFrom_def viewResult_def Let_def extends_refl)
      next
        case True
        from resolveNonSystemP_refines[OF wf g, of L cx cl pm]
        obtain r h1 where a: "resolveNonSystemP L h c cx cl pm name = Returns (r, h1)"
          and e1: "extends h h1"
          and v1: "map_sum id (view h1) r = resolveNonSystem L (viewLister h c) cx cl pm name"
          and k1: "\<forall>p. r = Inr p \<longrightarrow>
            (if ctxIdentity cx \<noteq> ''''
                \<or> (cl \<noteq> Wildcard
                    \<and> (case apiBindingIndexer c (BindingsByWorkspace cl) of
                          Inl _ \<Rightarrow> False
                        | Inr objs \<Rightarrow> firstBinding grp resource objs \<noteq> None))
             then newObject h h1 p else cached h p \<and> h1 = h)"
          by blast
        show ?thesis
        proof (cases r)
          case (Inl e)
          then show ?thesis
            using Some Returns \<open>getSystemCRD L c cl name = Inl err\<close> True sv a e1 v1
            by (auto simp: GetP_def Get_def ClusterNameFrom_def viewResult_def Let_def
                split: sum.splits)
        next
          case (Inr crd)
          from projectResultP_refines[of cl pm name h1 crd]
          obtain out h' where p: "projectResultP cl pm name h1 crd = Returns (out, h')"
            and e: "extends h1 h'" and v: "view h' out = projectResult cl pm name (view h1 crd)"
            and n: "pm \<longrightarrow> newObject h1 h' out" and k: "\<not> pm \<longrightarrow> out = crd \<and> h' = h1"
            by blast
          have e': "extends h h'" using extends_trans[OF e1 e] .
          have n': "pm \<Longrightarrow> newObject h h' out"
            using n e1 by (auto simp: newObject_def extends_def split: option.splits)
          have G: "GetP L h c cx name = Returns (Inr out, h')"
            using Some Returns \<open>getSystemCRD L c cl name = Inl err\<close> True a Inr p
            by (simp add: GetP_def ClusterNameFrom_def Let_def)
          have V: "Get L (viewLister h c) cx name = Returns (Inr (view h' out))"
            using Some Returns \<open>getSystemCRD L c cl name = Inl err\<close> True sv v1 Inr v
            by (auto simp: Get_def ClusterNameFrom_def Let_def split: sum.splits)
          have K: "if handsOutCopy L c cx name then newObject h h' out else cached h out \<and> h' = h"
          proof (cases pm)
            case True
            then show ?thesis using n' hoc Returns by simp
          next
            case False
            then show ?thesis
              using k k1 Inr hoc Returns \<open>getSystemCRD L c cl name = Inl err\<close> by auto
          qed
          show ?thesis using G V K e' by (simp add: viewResult_def)
        qed
      qed
    qed
  qed
qed

lemma cacheInHeap_getCRD:
  "cacheInHeap h c \<Longrightarrow> getCRD (systemCRDProvider c) k = Inr p \<Longrightarrow> cached h p"
  unfolding cacheInHeap_def by blast

lemma viewLister_extends:
  assumes wf: "cacheInHeap h c" and e: "extends h h'"
  shows "viewLister h' c = viewLister h c" and "cacheInHeap h' c"
proof -
  have v: "\<And>p. cached h p \<Longrightarrow> view h' p = view h p \<and> cached h' p"
    using cached_view_extends[OF _ e] by blast
  have 1: "\<And>k. map_sum id (view h') (crdLister c k) = map_sum id (view h) (crdLister c k)"
  proof -
    fix k show "map_sum id (view h') (crdLister c k) = map_sum id (view h) (crdLister c k)"
      using cacheInHeap_lister[OF wf, of k] v by (cases "crdLister c k") auto
  qed
  have 2: "\<And>q. map_sum id (map (view h')) (crdIndexer c q) = map_sum id (map (view h)) (crdIndexer c q)"
  proof -
    fix q show "map_sum id (map (view h')) (crdIndexer c q) = map_sum id (map (view h)) (crdIndexer c q)"
      using cacheInHeap_indexer[OF wf, of q] v by (cases "crdIndexer c q") auto
  qed
  have 3: "\<And>k. map_sum id (view h') (getCRD (systemCRDProvider c) k)
              = map_sum id (view h) (getCRD (systemCRDProvider c) k)"
  proof -
    fix k show "map_sum id (view h') (getCRD (systemCRDProvider c) k)
              = map_sum id (view h) (getCRD (systemCRDProvider c) k)"
      using cacheInHeap_getCRD[OF wf, of k] v by (cases "getCRD (systemCRDProvider c) k") auto
  qed
  show "viewLister h' c = viewLister h c"
    by (simp add: viewLister_def viewProvider_def 1 2 3)
  show "cacheInHeap h' c"
    using wf v unfolding cacheInHeap_def list_all_iff by blast
qed

lemma GetP_view_extends:
  assumes wf: "cacheInHeap h c" and e: "extends h h'"
  shows "viewResult (GetP L h' c cx name) = viewResult (GetP L h c cx name)"
proof -
  note x = viewLister_extends[OF wf e]
  have "viewResult (GetP L h' c cx name) = Get L (viewLister h' c) cx name"
    using GetP_refines[OF x(2)] by blast
  also have "\<dots> = Get L (viewLister h c) cx name" by (simp add: x(1))
  also have "\<dots> = viewResult (GetP L h c cx name)"
    using GetP_refines[OF wf] by metis
  finally show ?thesis .
qed

lemma sample_pointer_keys: "Keys sampleLib noSystemCRDs clusterName = {}"
  by (simp add: Keys_def noSystemCRDs_def split: sum.splits prod.splits)

lemma sample_pointer_sys:
  "getSystemCRD sampleLib samplePointerLister ''root:org:ws'' name = Inl NotFound"
  by (simp add: getSystemCRD_def Wildcard_def samplePointerLister_def sample_pointer_keys)

lemma sample_pointer_bindings:
  "apiBindingIndexer samplePointerLister (BindingsByWorkspace ''root:org:ws'')
     = Inr [pendingBinding, widgetsBinding]"
  by (simp add: samplePointerLister_def sampleBindingIndexer_def)

lemma sample_firstBinding_gadgets:
  "firstBinding ''example.io'' ''gadgets'' [pendingBinding, widgetsBinding] = None"
  by (simp add: pendingBinding_def widgetsBinding_def IsTrue_def InitialBindingCompleted_def)

lemma sample_pointer_lister:
  "crdLister samplePointerLister (ToClusterAwareKey ''root:org:ws'' ''gadgets.example.io'') = Inr 0"
  "crdLister samplePointerLister (ToClusterAwareKey ShadowWorkspaceName ''u-widgets'') = Inr 1"
  by (simp_all add: samplePointerLister_def ToClusterAwareKey_def ShadowWorkspaceName_def)

lemma sample_getP_gadgets:
  "getP sampleLib h samplePointerLister ''root:org:ws'' ''gadgets.example.io'' = Returns (Inr 0, h)"
  by (simp add: getP_def crdNameToGroupResource_def sample_pointer_bindings sample_firstBinding_gadgets
       sample_pointer_lister del: firstBinding.simps)

lemma sample_GetP_gadgets:
  "GetP sampleLib h samplePointerLister wsCtx ''gadgets.example.io'' = Returns (Inr 0, h)"
proof -
  have c: "ctxCluster wsCtx = Some ''root:org:ws''" "ctxIdentity wsCtx = ''''" "''root:org:ws'' \<noteq> Wildcard"
    by (simp_all add: wsCtx_def Wildcard_def)
  show ?thesis
    by (simp add: GetP_def ClusterNameFrom_def c sample_pointer_sys wsCtx_pm resolveNonSystemP_def
        IdentityFromContext_def sample_getP_gadgets projectResultP_def)
qed

lemma sample_cacheInHeap: "cacheInHeap sampleHeap samplePointerLister"
  by (simp add: cacheInHeap_def samplePointerLister_def noSystemCRDs_def cached_def sampleHeap_def
      asStruct_def)

lemma sample_handsOutCopy: "handsOutCopy sampleLib samplePointerLister wsCtx ''widgets.example.io''"
proof -
  have c: "ctxCluster wsCtx = Some ''root:org:ws''" "ctxIdentity wsCtx = ''''" "''root:org:ws'' \<noteq> Wildcard"
    by (simp_all add: wsCtx_def Wildcard_def)
  show ?thesis
    by (simp add: handsOutCopy_def c sample_pointer_sys crdNameToGroupResource_def sample_pointer_bindings
        sample_firstBinding_widgets del: firstBinding.simps)
qed

text \<open>
  C5, as stated, fails on the local-workspace path. In the sample heap the lister hands
  out the object at address 0 for the local gadgets CRD, and \<open>Get\<close> returns that very
  pointer without allocating. After the caller writes the annotation \<open>touched\<close> through
  the returned pointer, the same \<open>Get\<close> returns a schema that carries \<open>touched\<close>; before
  the write it did not.
\<close>

theorem cached_object_shared_counterexample:
  "GetP sampleLib sampleHeap samplePointerLister wsCtx ''gadgets.example.io'' = Returns (Inr 0, sampleHeap)
   \<and> setAnnotation sampleHeap 0 ''touched'' ''yes'' = Returns touchedHeap
   \<and> touchedAnnotation (GetP sampleLib sampleHeap samplePointerLister wsCtx ''gadgets.example.io'') = None
   \<and> touchedAnnotation (GetP sampleLib touchedHeap samplePointerLister wsCtx ''gadgets.example.io'')
        = Some ''yes''"
  by (simp add: sample_GetP_gadgets touchedAnnotation_def viewResult_def)
     (simp add: setAnnotation_def mutateAnnotations_def touchedHeap_def sampleHeap_def asStruct_def
        view_def readAnnotations_def)

text \<open>
  C5, amended. Let the lister, the indexer and \<open>getCRD\<close> hand out objects of the cache,
  let \<open>Get\<close> return the pointer \<open>p\<close>, and let the caller then change the annotations map
  of \<open>p\<close> in any way. If the request is one for which \<open>Get\<close> decorates or projects (a
  partial-metadata request, a request with an identity, or a single-cluster request
  for which a completed binding has a matching bound resource, the system lookup
  having no schema in the last two cases), every later \<open>Get\<close>, for any context and
  name, returns the same schema value as without the change, and as before the first
  call. Otherwise (system, local-workspace and full-data wildcard results of a request
  that is not partial metadata) \<open>Get\<close> has allocated nothing and \<open>p\<close> is an object of the
  cache, whose annotations the change has altered.
\<close>

theorem Get_copy_frame:
  assumes wf: "cacheInHeap h c"
    and g: "GetP L h c cx name = Returns (Inr p, h1)"
    and m: "mutateAnnotations h1 p f = Returns h2"
  shows "(handsOutCopy L c cx name \<longrightarrow>
            (\<forall>cx' name'. viewResult (GetP L h2 c cx' name') = viewResult (GetP L h1 c cx' name')
                       \<and> viewResult (GetP L h2 c cx' name') = viewResult (GetP L h c cx' name')))
    \<and> (\<not> handsOutCopy L c cx name \<longrightarrow>
            h1 = h \<and> cached h p
            \<and> view h2 p = (view h p)\<lparr>crdAnnotations := f (crdAnnotations (view h p))\<rparr>)"
proof -
  from GetP_refines[OF wf, of L cx name] g
  have e1: "extends h h1"
    and k: "if handsOutCopy L c cx name then newObject h h1 p else cached h p \<and> h1 = h"
    by blast+
  have A: "handsOutCopy L c cx name \<Longrightarrow>
            viewResult (GetP L h2 c cx' name') = viewResult (GetP L h1 c cx' name')
          \<and> viewResult (GetP L h2 c cx' name') = viewResult (GetP L h c cx' name')" for cx' name'
  proof -
    assume "handsOutCopy L c cx name"
    with k have n: "newObject h h1 p" by simp
    from mutateAnnotations_new[OF n, of f] m e1 have e2: "extends h h2" by auto
    show ?thesis
      using GetP_view_extends[OF wf e2, of L cx' name'] GetP_view_extends[OF wf e1, of L cx' name']
      by simp
  qed
  have B: "\<not> handsOutCopy L c cx name \<Longrightarrow>
            h1 = h \<and> cached h p
            \<and> view h2 p = (view h p)\<lparr>crdAnnotations := f (crdAnnotations (view h p))\<rparr>"
  proof -
    assume "\<not> handsOutCopy L c cx name"
    with k have c: "cached h p" "h1 = h" by simp_all
    show ?thesis
      using c m
      by (auto simp: mutateAnnotations_def view_def readAnnotations_def Let_def split: option.splits)
  qed
  show ?thesis using A B by blast
qed

theorem Get_copy_frame_witness:
  "\<exists>p h1 h2. GetP sampleLib sampleHeap samplePointerLister wsCtx ''widgets.example.io'' = Returns (Inr p, h1)
     \<and> setAnnotation h1 p ''touched'' ''yes'' = Returns h2
     \<and> crdAnnotations (view h2 p) ''touched'' = Some ''yes''
     \<and> handsOutCopy sampleLib samplePointerLister wsCtx ''widgets.example.io''
     \<and> touchedAnnotation (GetP sampleLib h2 samplePointerLister wsCtx ''widgets.example.io'') = None
     \<and> viewResult (GetP sampleLib h2 samplePointerLister wsCtx ''widgets.example.io'')
          = viewResult (GetP sampleLib sampleHeap samplePointerLister wsCtx ''widgets.example.io'')"
proof -
  have c: "ctxCluster wsCtx = Some ''root:org:ws''" "ctxIdentity wsCtx = ''''" "''root:org:ws'' \<noteq> Wildcard"
    by (simp_all add: wsCtx_def Wildcard_def)
  have d: "\<exists>out h'. decorateCRDWithBindingP sampleLib sampleHeap 1 ''id1'' (Some 42) = Returns (out, h')
      \<and> newObject sampleHeap h' out
      \<and> view h' out = decorateCRDWithBinding sampleLib (view sampleHeap 1) ''id1'' (Some 42)"
    using decorateP_refines[of 1 sampleHeap sampleLib "''id1''" "Some 42"]
    by (auto simp: sampleHeap_def)
  then obtain p h1 where
    dd: "decorateCRDWithBindingP sampleLib sampleHeap 1 ''id1'' (Some 42) = Returns (p, h1)"
    and n: "newObject sampleHeap h1 p"
    and v: "view h1 p = decorateCRDWithBinding sampleLib (view sampleHeap 1) ''id1'' (Some 42)"
    by blast
  have gp: "getP sampleLib sampleHeap samplePointerLister ''root:org:ws'' ''widgets.example.io''
      = Returns (Inr p, h1)"
    using dd
    by (simp add: getP_def crdNameToGroupResource_def sample_pointer_bindings sample_firstBinding_widgets
        sample_binding_facts sample_pointer_lister del: firstBinding.simps)
  have G: "GetP sampleLib sampleHeap samplePointerLister wsCtx ''widgets.example.io'' = Returns (Inr p, h1)"
    using gp c
    by (simp add: GetP_def ClusterNameFrom_def sample_pointer_sys wsCtx_pm resolveNonSystemP_def
        IdentityFromContext_def projectResultP_def)
  from mutateAnnotations_new[OF n, of "\<lambda>m. m(''touched'' \<mapsto> ''yes'')"]
  obtain h2 where m: "mutateAnnotations h1 p (\<lambda>m. m(''touched'' \<mapsto> ''yes'')) = Returns h2"
    and v2: "view h2 p = (view h1 p)\<lparr>crdAnnotations := (crdAnnotations (view h1 p))(''touched'' \<mapsto> ''yes'')\<rparr>"
    by blast
  from Get_copy_frame[OF sample_cacheInHeap G m] sample_handsOutCopy
  have F: "viewResult (GetP sampleLib h2 samplePointerLister wsCtx ''widgets.example.io'')
          = viewResult (GetP sampleLib sampleHeap samplePointerLister wsCtx ''widgets.example.io'')"
    by blast
  have T: "touchedAnnotation (GetP sampleLib sampleHeap samplePointerLister wsCtx ''widgets.example.io'') = None"
    using G v
    by (simp add: touchedAnnotation_def viewResult_def decorateCRDWithBinding_def
        shallowCopyCRDAndDeepCopyAnnotations_def decorateTerminating_def SetCRDCondition_def Let_def
        view_def sampleHeap_def asStruct_def readAnnotations_def AnnotationAPIIdentityKey_def
        split: option.splits)
  have T2: "touchedAnnotation (GetP sampleLib h2 samplePointerLister wsCtx ''widgets.example.io'') = None"
    using T F by (simp add: touchedAnnotation_def)
  show ?thesis
    using G m v2 sample_handsOutCopy F T2 by (auto simp: setAnnotation_def)
qed

end
